theory Spec2Isabelle
  imports Complex_Main "HOL-Library.Sublist"
begin

section \<open>Python values and strings\<close>

text \<open>
  The module \<^verbatim>\<open>simple_api/models/boleta_honorarios.py\<close> is embedded function by function.
  A Python \<^verbatim>\<open>str\<close> is a \<^typ>\<open>string\<close>; a character stands for the code point of the same
  number, so the strings of the model are those over U+0000 to U+00FF. The library
  functions of \<^verbatim>\<open>str\<close> below are the ones of Python 3 on that range. Logging
  (\<^verbatim>\<open>_logger\<close>, \<^verbatim>\<open>_mask_key\<close>) writes to no field of a document and is left out; the
  translation function \<^verbatim>\<open>_\<close> is the identity (the source language).
\<close>

definition ord :: "char \<Rightarrow> nat" where
  "ord c = of_char c"

text \<open>\<^verbatim>\<open>str.isdigit\<close>: the ten decimal digits and the superscripts U+00B2, U+00B3, U+00B9.\<close>

definition is_decimal :: "char \<Rightarrow> bool" where
  "is_decimal c = (48 \<le> ord c \<and> ord c \<le> 57)"

definition isdigit_char :: "char \<Rightarrow> bool" where
  "isdigit_char c = (is_decimal c \<or> ord c = 178 \<or> ord c = 179 \<or> ord c = 185)"

definition isdigit :: "string \<Rightarrow> bool" where
  "isdigit s = (s \<noteq> [] \<and> list_all isdigit_char s)"

text \<open>
  \<^verbatim>\<open>str.upper\<close> and \<^verbatim>\<open>str.lower\<close>. The upper case of U+00DF is the two letters SS. The
  upper cases of U+00B5 and U+00FF (U+039C and U+0178) lie outside the range; both
  characters are left as they are, and stand for a character that is no digit and no
  ASCII letter.
\<close>

definition upper_char :: "char \<Rightarrow> string" where
  "upper_char c =
     (if 97 \<le> ord c \<and> ord c \<le> 122 then [char_of (ord c - 32)]
      else if ord c = 223 then ''SS''
      else if 224 \<le> ord c \<and> ord c \<le> 254 \<and> ord c \<noteq> 247 then [char_of (ord c - 32)]
      else [c])"

definition upper :: "string \<Rightarrow> string" where
  "upper s = concat (map upper_char s)"

definition lower_char :: "char \<Rightarrow> char" where
  "lower_char c =
     (if 65 \<le> ord c \<and> ord c \<le> 90 then char_of (ord c + 32)
      else if 192 \<le> ord c \<and> ord c \<le> 222 \<and> ord c \<noteq> 215 then char_of (ord c + 32)
      else c)"

definition lower :: "string \<Rightarrow> string" where
  "lower s = map lower_char s"

text \<open>\<^verbatim>\<open>s.replace(c, '')\<close> for a one-character \<^verbatim>\<open>c\<close>.\<close>

definition remove_char :: "char \<Rightarrow> string \<Rightarrow> string" where
  "remove_char c s = filter (\<lambda>x. x \<noteq> c) s"

text \<open>\<^verbatim>\<open>str.strip()\<close>: the white space of Python below U+0100.\<close>

definition isspace :: "char \<Rightarrow> bool" where
  "isspace c = ((9 \<le> ord c \<and> ord c \<le> 13) \<or> (28 \<le> ord c \<and> ord c \<le> 32)
                 \<or> ord c = 133 \<or> ord c = 160)"

definition strip :: "string \<Rightarrow> string" where
  "strip s = rev (dropWhile isspace (rev (dropWhile isspace s)))"

text \<open>\<^verbatim>\<open>sub in s\<close> for strings.\<close>

fun contains :: "string \<Rightarrow> string \<Rightarrow> bool" where
  "contains [] sub = (sub = [])"
| "contains (c # cs) sub = (take (length sub) (c # cs) = sub \<or> contains cs sub)"

text \<open>\<^verbatim>\<open>str(n)\<close> for an integer.\<close>

fun str_nat :: "nat \<Rightarrow> string" where
  "str_nat n = (if n < 10 then [char_of (48 + n)]
                else str_nat (n div 10) @ [char_of (48 + n mod 10)])"

declare str_nat.simps [simp del]

definition str_int :: "int \<Rightarrow> string" where
  "str_int i = (if i < 0 then CHR ''-'' # str_nat (nat (- i)) else str_nat (nat i))"

text \<open>
  \<^verbatim>\<open>int(s)\<close> for a string, \<open>None\<close> where Python raises \<^verbatim>\<open>ValueError\<close>: white space
  around, an optional sign, decimal digits with single underscores between them.
  (CPython's limit of 4300 digits is not modelled.)
\<close>

fun digits_ok :: "string \<Rightarrow> bool" where
  "digits_ok [] = False"
| "digits_ok [c] = is_decimal c"
| "digits_ok (c # d # cs) =
     (is_decimal c \<and> (if d = CHR ''_'' then digits_ok cs else digits_ok (d # cs)))"

definition digits_value :: "string \<Rightarrow> nat" where
  "digits_value s = foldl (\<lambda>acc c. 10 * acc + (ord c - 48)) 0 (filter is_decimal s)"

definition py_int :: "string \<Rightarrow> int option" where
  "py_int s =
     (let t = strip s;
          neg = (t \<noteq> [] \<and> hd t = CHR ''-'');
          u = (if t \<noteq> [] \<and> (hd t = CHR ''-'' \<or> hd t = CHR ''+'') then tl t else t)
      in if digits_ok u
         then Some (if neg then - int (digits_value u) else int (digits_value u))
         else None)"

section \<open>JSON values\<close>

text \<open>
  What \<^verbatim>\<open>resp.json()\<close> returns. An object is an association list read with \<open>map_of\<close>.
  Numbers are integers: a JSON number with a fraction is outside the model.
\<close>

datatype json =
    JNull
  | JBool bool
  | JInt int
  | JStr string
  | JList "json list"
  | JObj "(string \<times> json) list"

text \<open>Python's truth value of an object, as \<^verbatim>\<open>if x\<close>, \<^verbatim>\<open>x or y\<close> and \<^verbatim>\<open>not x\<close> test it.\<close>

fun truthy :: "json \<Rightarrow> bool" where
  "truthy JNull = False"
| "truthy (JBool b) = b"
| "truthy (JInt n) = (n \<noteq> 0)"
| "truthy (JStr s) = (s \<noteq> [])"
| "truthy (JList xs) = (xs \<noteq> [])"
| "truthy (JObj kv) = (kv \<noteq> [])"

text \<open>\<^verbatim>\<open>d.get(k)\<close> on a dict: \<^verbatim>\<open>None\<close> when the key is absent.\<close>

definition dict_get :: "(string \<times> json) list \<Rightarrow> string \<Rightarrow> json" where
  "dict_get kv k = (case map_of kv k of None \<Rightarrow> JNull | Some v \<Rightarrow> v)"

text \<open>\<^verbatim>\<open>a or b\<close>.\<close>

definition py_or :: "json \<Rightarrow> json \<Rightarrow> json" where
  "py_or a b = (if truthy a then a else b)"

text \<open>\<^verbatim>\<open>type(x).__name__\<close>, as it stands in the message of an \<^verbatim>\<open>AttributeError\<close>.\<close>

fun type_name :: "json \<Rightarrow> string" where
  "type_name JNull = ''NoneType''"
| "type_name (JBool b) = ''bool''"
| "type_name (JInt n) = ''int''"
| "type_name (JStr s) = ''str''"
| "type_name (JList xs) = ''list''"
| "type_name (JObj kv) = ''dict''"

section \<open>Exceptions and the outside world\<close>

text \<open>
  \<open>UserError m\<close> is \<^verbatim>\<open>odoo.exceptions.UserError(m)\<close>. \<open>ValueError s\<close> is what \<^verbatim>\<open>int(s)\<close>
  raises on the string \<open>s\<close>, \<open>AttributeError t\<close> what \<^verbatim>\<open>x.get\<close> raises on an object of
  type \<open>t\<close>, and \<open>LibraryError m\<close> an exception with message \<open>m\<close> raised inside
  \<^verbatim>\<open>requests.post\<close> or \<^verbatim>\<open>resp.json()\<close>.
\<close>

datatype exn =
    UserError string
  | ValueError string
  | AttributeError string
  | LibraryError string

record response =
  status_code :: int
  resp_text :: string
  json_body :: "string + json"

datatype post_result = Post_Raises string | Post_Returns response

record request =
  url :: string
  headers :: "(string \<times> string) list"
  payload :: json
  timeout :: int

text \<open>
  Everything the module reads from outside: the store of \<^verbatim>\<open>ir.config_parameter\<close>, the
  answer of \<^verbatim>\<open>requests.post\<close> to the request sent as the \<open>n\<close>-th interaction, the clock
  of \<^verbatim>\<open>fields.Datetime.now()\<close> at the \<open>n\<close>-th interaction, \<^verbatim>\<open>json.dumps(_, indent=2)\<close>, and
  \<^verbatim>\<open>repr\<close> (which \<^verbatim>\<open>str\<close> is on lists and dicts). In \<open>json_body\<close>, \<open>Inl m\<close> is
  \<^verbatim>\<open>resp.json()\<close> raising with message \<open>m\<close>; the model has no JSON parser, so what
  \<^verbatim>\<open>resp.json()\<close> gives is part of the answer, beside its text. The world is the count of
  interactions so far.
\<close>

record env =
  get_param :: "string \<Rightarrow> string option"
  post :: "nat \<Rightarrow> request \<Rightarrow> post_result"
  clock :: "nat \<Rightarrow> nat"
  dumps :: "json \<Rightarrow> string"
  repr :: "json \<Rightarrow> string"

text \<open>\<^verbatim>\<open>str(x)\<close>.\<close>

fun py_str :: "env \<Rightarrow> json \<Rightarrow> string" where
  "py_str E JNull = ''None''"
| "py_str E (JBool b) = (if b then ''True'' else ''False'')"
| "py_str E (JInt n) = str_int n"
| "py_str E (JStr s) = s"
| "py_str E (JList xs) = repr E (JList xs)"
| "py_str E (JObj kv) = repr E (JObj kv)"

text \<open>\<^verbatim>\<open>str(e)\<close> for an exception.\<close>

fun str_exn :: "env \<Rightarrow> exn \<Rightarrow> string" where
  "str_exn E (UserError m) = m"
| "str_exn E (ValueError s) = ''invalid literal for int() with base 10: '' @ repr E (JStr s)"
| "str_exn E (AttributeError t) =
     [CHR 0x27] @ t @ [CHR 0x27] @ '' object has no attribute '' @ [CHR 0x27] @ ''get'' @ [CHR 0x27]"
| "str_exn E (LibraryError m) = m"

section \<open>The document\<close>

text \<open>
  The fields of \<^verbatim>\<open>boleta.honorarios\<close> that the operations read or write. A field declared
  \<^verbatim>\<open>required=True\<close> has its value; any other \<^verbatim>\<open>Char\<close>, \<^verbatim>\<open>Text\<close>, \<^verbatim>\<open>Datetime\<close> or
  \<^verbatim>\<open>Selection\<close> field is an option, \<open>None\<close> being Odoo's \<^verbatim>\<open>False\<close>. \<open>receptor_region\<close> is
  the number of the selected key (1 to 16). \<open>messages\<close> is the chatter of the record:
  what \<^verbatim>\<open>message_post\<close> appended, oldest first.
\<close>

datatype state = Draft | Processing | Emitted | Downloaded | Error | Cancelled

datatype retencion = Sin_Retencion | Con_Retencion

datatype direccion = Principal | Secundaria

datatype message_type = Unspecified | Comment | Notification

record date =
  year :: int
  month :: nat
  day :: nat

record document =
  numero_boleta :: "string option"
  fecha_emision :: date
  state :: state
  rut_usuario :: string
  password_sii :: string
  direccion_emisor :: direccion
  retencion :: retencion
  receptor_rut :: string
  receptor_nombre :: string
  receptor_direccion :: string
  receptor_region :: nat
  receptor_comuna :: string
  descripcion_servicio :: string
  valor_bruto :: rat
  response_data :: "string option"
  email_destinatario :: "string option"
  error_message :: "string option"
  fecha_procesamiento :: "nat option"
  intentos :: int
  motivo_anulacion :: "string option"
  messages :: "(string \<times> message_type) list"

definition message_post :: "document \<Rightarrow> string \<Rightarrow> message_type \<Rightarrow> document" where
  "message_post d body ty = d\<lparr>messages := messages d @ [(body, ty)]\<rparr>"

text \<open>The truth value of an optional string field, and how an f-string prints it.\<close>

definition field_truthy :: "string option \<Rightarrow> bool" where
  "field_truthy f = (case f of None \<Rightarrow> False | Some s \<Rightarrow> s \<noteq> [])"

definition field_str :: "string option \<Rightarrow> string" where
  "field_str f = (case f of None \<Rightarrow> ''False'' | Some s \<Rightarrow> s)"

text \<open>\<^verbatim>\<open>rut.replace('.', '').replace('-', '')\<close>.\<close>

definition strip_separators :: "string \<Rightarrow> string" where
  "strip_separators rut = remove_char CHR ''-'' (remove_char CHR ''.'' rut)"

section \<open>Configuration and the issuance payload\<close>

record config =
  api_key :: string
  base_url :: string
  cfg_timeout :: int

text \<open>\<^verbatim>\<open>ir.config_parameter.get_param(key, default)\<close>: the stored value \<^verbatim>\<open>or\<close> the default.\<close>

definition param :: "env \<Rightarrow> string \<Rightarrow> string \<Rightarrow> string" where
  "param E key dflt = (case get_param E key of None \<Rightarrow> dflt | Some v \<Rightarrow> if v = [] then dflt else v)"

definition get_simpleapi_config :: "env \<Rightarrow> exn + config" where
  "get_simpleapi_config E =
     (let key = param E ''boleta_honorarios.simpleapi_api_key'' ''4648-N330-6392-2590-9354'';
          base = param E ''boleta_honorarios.simpleapi_base_url'' ''https://servicios.simpleapi.cl/api'';
          t = param E ''boleta_honorarios.simpleapi_timeout'' ''30''
      in case py_int t of
           None \<Rightarrow> Inl (ValueError t)
         | Some n \<Rightarrow> Inr \<lparr>api_key = key, base_url = base, cfg_timeout = n\<rparr>)"

definition pad2 :: "nat \<Rightarrow> string" where
  "pad2 n = (if n < 10 then CHR ''0'' # str_nat n else str_nat n)"

text \<open>\<^verbatim>\<open>strftime('%d-%m-%Y')\<close>, for a year of four digits.\<close>

definition strftime_dmy :: "date \<Rightarrow> string" where
  "strftime_dmy dt = pad2 (day dt) @ ''-'' @ pad2 (month dt) @ ''-'' @ str_int (year dt)"

text \<open>\<^verbatim>\<open>int(x)\<close> for a number: towards zero.\<close>

definition truncate :: "rat \<Rightarrow> int" where
  "truncate x = (if 0 \<le> x then \<lfloor>x\<rfloor> else \<lceil>x\<rceil>)"

definition retencion_key :: "retencion \<Rightarrow> int" where
  "retencion_key r = (case r of Sin_Retencion \<Rightarrow> 0 | Con_Retencion \<Rightarrow> 1)"

definition direccion_key :: "direccion \<Rightarrow> string" where
  "direccion_key a = (case a of Principal \<Rightarrow> ''0'' | Secundaria \<Rightarrow> ''1'')"

definition prepare_api_data :: "document \<Rightarrow> json" where
  "prepare_api_data d =
     JObj [(''RutUsuario'', JStr (strip_separators (rut_usuario d))),
           (''PasswordSII'', JStr (password_sii d)),
           (''Retencion'', JInt (retencion_key (retencion d))),
           (''FechaEmision'', JStr (strftime_dmy (fecha_emision d))),
           (''Emisor'', JObj [(''Direccion'', JStr (direccion_key (direccion_emisor d)))]),
           (''Receptor'', JObj [(''Rut'', JStr (strip_separators (receptor_rut d))),
                                (''Nombre'', JStr (receptor_nombre d)),
                                (''Direccion'', JStr (receptor_direccion d)),
                                (''Region'', JInt (int (receptor_region d))),
                                (''Comuna'', JStr (receptor_comuna d))]),
           (''Detalles'', JList [JObj [(''Nombre'', JStr (descripcion_servicio d)),
                                       (''Valor'', JInt (truncate (valor_bruto d)))]])]"

section \<open>Issuance\<close>

text \<open>The request of \<^verbatim>\<open>_call_simpleapi\<close>, and the function itself.\<close>

definition emitir_request :: "config \<Rightarrow> json \<Rightarrow> request" where
  "emitir_request cfg data =
     \<lparr>url = base_url cfg @ ''/bhe/emitir'',
      headers = [(''Content-Type'', ''application/json''),
                 (''Accept'', ''application/json''),
                 (''Authorization'', api_key cfg)],
      payload = data, timeout = cfg_timeout cfg\<rparr>"

definition call_simpleapi :: "env \<Rightarrow> nat \<Rightarrow> json \<Rightarrow> nat \<times> (exn + json)" where
  "call_simpleapi E w data =
     (case get_simpleapi_config E of
        Inl e \<Rightarrow> (w, Inl e)
      | Inr cfg \<Rightarrow>
          (case post E w (emitir_request cfg data) of
             Post_Raises m \<Rightarrow>
               (Suc w, Inl (UserError (''Error inesperado llamando SimpleAPI: '' @ m)))
           | Post_Returns resp \<Rightarrow>
               if status_code resp = 200 then
                 (case json_body resp of
                    Inl m \<Rightarrow> (Suc w, Inl (UserError (''Error inesperado llamando SimpleAPI: '' @ m)))
                  | Inr j \<Rightarrow> (Suc w, Inr j))
               else (Suc w, Inl (UserError (''Error en API: '' @ str_int (status_code resp)
                                             @ '' - '' @ resp_text resp)))))"

text \<open>
  \<^verbatim>\<open>_send_mail_via_simpleapi\<close>: the result is the exception raised, or the value returned
  and the document with the message posted. \<^verbatim>\<open>time.sleep\<close> changes nothing of the model.
\<close>

definition mail_request :: "config \<Rightarrow> document \<Rightarrow> string \<Rightarrow> int \<Rightarrow> string \<Rightarrow> request" where
  "mail_request cfg d folio anio email =
     \<lparr>url = base_url cfg @ ''/bhe/mail/'' @ folio @ ''/'' @ str_int anio,
      headers = [(''Authorization'', api_key cfg),
                 (''Accept'', ''application/json''),
                 (''Content-Type'', ''application/json''),
                 (''User-Agent'', ''odoo-18-bhe'')],
      payload = JObj [(''RutUsuario'', JStr (strip_separators (rut_usuario d))),
                      (''PasswordSII'', JStr (password_sii d)),
                      (''Correo'', JStr email)],
      timeout = cfg_timeout cfg\<rparr>"

definition send_mail_via_simpleapi ::
  "env \<Rightarrow> nat \<Rightarrow> document \<Rightarrow> string \<Rightarrow> int \<Rightarrow> string \<Rightarrow> nat \<times> (exn + bool \<times> document)" where
  "send_mail_via_simpleapi E w d folio anio email =
     (case get_simpleapi_config E of
        Inl e \<Rightarrow> (w, Inl e)
      | Inr cfg \<Rightarrow>
          (case post E w (mail_request cfg d folio anio email) of
             Post_Raises m \<Rightarrow> (Suc w, Inl (LibraryError m))
           | Post_Returns resp \<Rightarrow>
               if status_code resp = 200 \<or> status_code resp = 202 then
                 (Suc w, Inr (True, message_post d
                    (''Correo solicitado a SimpleAPI (folio '' @ folio @ ''): '' @ email)
                    Notification))
               else
                 (Suc w, Inr (False, message_post d
                    (''No se pudo solicitar env'' @ [CHR 0xED] @ ''o por correo (POST). Status ''
                       @ str_int (status_code resp) @ ''. Body: '' @ take 300 (resp_text resp))
                    Comment))))"

text \<open>
  The loop over the year fields of \<^verbatim>\<open>_process_successful_response\<close>: the first field that
  is truthy and whose first four characters \<^verbatim>\<open>int\<close> accepts; \<open>None\<close> is Python's
  \<^verbatim>\<open>None\<close>.
\<close>

fun extract_anio :: "env \<Rightarrow> (string \<times> json) list \<Rightarrow> string list \<Rightarrow> int option" where
  "extract_anio E kv [] = None"
| "extract_anio E kv (k # ks) =
     (if truthy (dict_get kv k) then
        (case py_int (take 4 (py_str E (dict_get kv k))) of
           Some n \<Rightarrow> Some n
         | None \<Rightarrow> extract_anio E kv ks)
      else extract_anio E kv ks)"

text \<open>
  The year the mail request is made for: the one found in the response, else (\<^verbatim>\<open>not anio\<close>)
  the year of \<^verbatim>\<open>fecha_emision\<close>, a date and so always truthy.
\<close>

definition resolve_anio :: "env \<Rightarrow> document \<Rightarrow> (string \<times> json) list \<Rightarrow> int" where
  "resolve_anio E d kv =
     (case extract_anio E kv
             [''anio'', ''anioFolio'', ''year'', ''anio_emision'', ''anioFolioEmitido''] of
        None \<Rightarrow> year (fecha_emision d)
      | Some n \<Rightarrow> if n = 0 then year (fecha_emision d) else n)"

definition extract_folio :: "(string \<times> json) list \<Rightarrow> json" where
  "extract_folio kv =
     py_or (py_or (py_or (py_or (dict_get kv ''folio'') (dict_get kv ''numeroDocumento''))
                         (dict_get kv ''numero_boleta''))
                  (dict_get kv ''numeroBoleta''))
           (dict_get kv ''numero'')"

definition process_successful_response ::
  "env \<Rightarrow> nat \<Rightarrow> document \<Rightarrow> (string \<times> json) list \<Rightarrow> nat \<times> document" where
  "process_successful_response E w d kv =
     (let d1 = d\<lparr>response_data := Some (dumps E (JObj kv))\<rparr>;
          folio = extract_folio kv
      in if truthy folio then
           (let d2 = d1\<lparr>numero_boleta := Some (py_str E folio), state := Emitted,
                        error_message := None\<rparr>;
                d3 = message_post d2
                       (''Boleta emitida exitosamente. N'' @ [CHR 0xFA] @ ''mero: ''
                          @ field_str (numero_boleta d2)) Notification;
                anio = resolve_anio E d3 kv
            in if anio \<noteq> 0 \<and> field_truthy (email_destinatario d3) then
                 (case send_mail_via_simpleapi E w d3 (field_str (numero_boleta d3)) anio
                         (field_str (email_destinatario d3)) of
                    (w', Inl e) \<Rightarrow>
                      (w', message_post d3
                             (''Error solicitando env'' @ [CHR 0xED] @ ''o por correo: ''
                                @ str_exn E e) Comment)
                  | (w', Inr (sent, d4)) \<Rightarrow> (w', d4))
               else (w, d3))
         else
           (let d2 = d1\<lparr>state := Error,
                        error_message :=
                          Some (''Respuesta exitosa pero sin n'' @ [CHR 0xFA] @ ''mero de boleta'')\<rparr>
            in (w, message_post d2
                     (''Respuesta exitosa sin folio. Response: '' @ field_str (response_data d2))
                     Comment)))"

definition process_error_response :: "env \<Rightarrow> document \<Rightarrow> (string \<times> json) list \<Rightarrow> document" where
  "process_error_response E d kv =
     (let error_msg =
            py_or (py_or (py_or (py_or (py_or (dict_get kv ''error'') (dict_get kv ''mensaje''))
                                       (dict_get kv ''message''))
                                (dict_get kv ''descripcion''))
                         (dict_get kv ''detalle''))
                  (JStr ''Error desconocido'');
          d1 = d\<lparr>state := Error, error_message := Some (py_str E error_msg),
                   response_data := Some (dumps E (JObj kv))\<rparr>
      in message_post d1 (''Error en emisi'' @ [CHR 0xF3] @ ''n: '' @ py_str E error_msg) Comment)"

text \<open>
  \<^verbatim>\<open>action_emitir_boleta\<close>, for one record: the four statements that open the \<^verbatim>\<open>try\<close>
  block (\<open>emitir_begin\<close>), the rest of the block (\<open>emitir_try\<close>, whose \<open>Inl\<close> is the
  exception raised: every \<^verbatim>\<open>raise\<close> of the block stands before its next write to the
  record), and the handler (\<open>emitir_one\<close>).
\<close>

definition emitir_begin :: "env \<Rightarrow> nat \<Rightarrow> document \<Rightarrow> document" where
  "emitir_begin E w d =
     message_post (d\<lparr>state := Processing, intentos := intentos d + 1,
                     fecha_procesamiento := Some (clock E w)\<rparr>)
       (''Iniciando emisi'' @ [CHR 0xF3] @ ''n de boleta de honorarios...'') Unspecified"

definition is_successful :: "(string \<times> json) list \<Rightarrow> bool" where
  "is_successful kv =
     (truthy (dict_get kv ''success'') \<or> truthy (dict_get kv ''numeroDocumento'')
      \<or> truthy (dict_get kv ''numero'') \<or> truthy (dict_get kv ''folio''))"

definition emitir_try :: "env \<Rightarrow> nat \<Rightarrow> document \<Rightarrow> nat \<times> (exn + document)" where
  "emitir_try E w d =
     (if descripcion_servicio d = [] then
        (w, Inl (UserError (''Debe agregar una descripci'' @ [CHR 0xF3] @ ''n del servicio'')))
      else if valor_bruto d \<le> 0 then
        (w, Inl (UserError ''El valor bruto debe ser mayor a cero''))
      else if \<not> field_truthy (email_destinatario d)
              \<or> CHR ''@'' \<notin> set (field_str (email_destinatario d)) then
        (w, Inl (UserError (''Debe indicar un correo destinatario v'' @ [CHR 0xE1]
                              @ ''lido (ej: correo@dominio.cl)'')))
      else
        (case call_simpleapi E w (prepare_api_data d) of
           (w', Inl e) \<Rightarrow> (w', Inl e)
         | (w', Inr (JObj kv)) \<Rightarrow>
             if is_successful kv then
               (case process_successful_response E w' d kv of (w'', d') \<Rightarrow> (w'', Inr d'))
             else (w', Inr (process_error_response E d kv))
         | (w', Inr j) \<Rightarrow> (w', Inl (AttributeError (type_name j)))))"

definition emitir_one :: "env \<Rightarrow> nat \<Rightarrow> document \<Rightarrow> nat \<times> document" where
  "emitir_one E w d =
     (let d1 = emitir_begin E w d in
      case emitir_try E (Suc w) d1 of
        (w', Inr d2) \<Rightarrow> (w', d2)
      | (w', Inl e) \<Rightarrow>
          (w', message_post (d1\<lparr>state := Error, error_message := Some (str_exn E e)\<rparr>)
                 (''Error emitiendo boleta: '' @ str_exn E e) Comment))"

fun action_emitir_boleta :: "env \<Rightarrow> nat \<Rightarrow> document list \<Rightarrow> nat \<times> document list" where
  "action_emitir_boleta E w [] = (w, [])"
| "action_emitir_boleta E w (d # ds) =
     (case emitir_one E w d of
        (w1, d') \<Rightarrow> (case action_emitir_boleta E w1 ds of (w2, ds') \<Rightarrow> (w2, d' # ds')))"

section \<open>Voiding\<close>

text \<open>
  \<^verbatim>\<open>action_anular_boleta\<close> (legacy). \<open>legacy_ok\<close> is the flag \<^verbatim>\<open>ok\<close> at HTTP 200;
  \<open>anular_try\<close> is the \<^verbatim>\<open>try\<close> block for one record and \<open>anular_one\<close> adds the state
  check before it and the handler after it.
\<close>

definition legacy_ok :: "response \<Rightarrow> bool" where
  "legacy_ok resp =
     (case json_body resp of
        Inr (JObj kv) \<Rightarrow> \<not> truthy (dict_get kv ''error'')
      | Inr j \<Rightarrow> False
      | Inl m \<Rightarrow> (let txt = lower (resp_text resp)
                 in contains txt ''anulada'' \<or> contains txt ''correctamente''))"

definition anular_request :: "config \<Rightarrow> document \<Rightarrow> request" where
  "anular_request cfg d =
     \<lparr>url = base_url cfg @ ''/bhe/anular'',
      headers = [(''Content-Type'', ''application/json''),
                 (''Accept'', ''application/json''),
                 (''Authorization'', api_key cfg)],
      payload = JObj [(''numeroDocumento'',
                         (case numero_boleta d of None \<Rightarrow> JBool False | Some s \<Rightarrow> JStr s)),
                      (''rutEmisor'', JStr (strip_separators (rut_usuario d))),
                      (''passwordSII'', JStr (password_sii d))],
      timeout = cfg_timeout cfg\<rparr>"

definition anular_try :: "env \<Rightarrow> nat \<Rightarrow> document \<Rightarrow> nat \<times> (exn + document)" where
  "anular_try E w d =
     (case get_simpleapi_config E of
        Inl e \<Rightarrow> (w, Inl e)
      | Inr cfg \<Rightarrow>
          (case post E w (anular_request cfg d) of
             Post_Raises m \<Rightarrow> (Suc w, Inl (LibraryError m))
           | Post_Returns resp \<Rightarrow>
               (let body_preview = take 300 (resp_text resp) in
                if status_code resp = 200 \<and> legacy_ok resp then
                  (Suc w, Inr (message_post (d\<lparr>state := Cancelled\<rparr>)
                     (''Boleta '' @ field_str (numero_boleta d)
                        @ '' anulada exitosamente (legacy). Resp: '' @ body_preview)
                     Notification))
                else (Suc w, Inl (UserError (''Error anulando boleta: '' @ body_preview))))))"

definition anular_one :: "env \<Rightarrow> nat \<Rightarrow> document \<Rightarrow> nat \<times> (exn + document)" where
  "anular_one E w d =
     (if state d \<noteq> Emitted \<and> state d \<noteq> Downloaded then
        (w, Inl (UserError ''Solo se pueden anular boletas emitidas''))
      else
        (case anular_try E w d of
           (w', Inl e) \<Rightarrow> (w', Inl (UserError (''Error anulando boleta: '' @ str_exn E e)))
         | (w', Inr d') \<Rightarrow> (w', Inr d')))"

text \<open>
  The loop over the records stops at the first exception: the result is the world, the
  records as the loop left them, and the exception that reached the caller, if any.
\<close>

fun action_anular_boleta ::
  "env \<Rightarrow> nat \<Rightarrow> document list \<Rightarrow> nat \<times> document list \<times> exn option" where
  "action_anular_boleta E w [] = (w, [], None)"
| "action_anular_boleta E w (d # ds) =
     (case anular_one E w d of
        (w', Inl e) \<Rightarrow> (w', d # ds, Some e)
      | (w', Inr d') \<Rightarrow>
          (case action_anular_boleta E w' ds of (w'', ds', r) \<Rightarrow> (w'', d' # ds', r)))"

text \<open>\<^verbatim>\<open>action_anular_boleta_path\<close>, in the same three layers.\<close>

definition success_flag :: "env \<Rightarrow> (string \<times> json) list \<Rightarrow> bool" where
  "success_flag E kv =
     (let s = lower (py_str E (case map_of kv ''success'' of None \<Rightarrow> JStr ''true'' | Some v \<Rightarrow> v))
      in s = ''true'' \<or> s = ''1'' \<or> s = ''yes'')"

definition anular_path_request :: "config \<Rightarrow> document \<Rightarrow> request" where
  "anular_path_request cfg d =
     \<lparr>url = base_url cfg @ ''/bhe/anular/'' @ strip (field_str (numero_boleta d)) @ ''/''
              @ field_str (motivo_anulacion d),
      headers = [(''Content-Type'', ''application/json''),
                 (''Accept'', ''application/json''),
                 (''Authorization'', api_key cfg),
                 (''User-Agent'', ''odoo-18-bhe'')],
      payload = JObj [(''RutUsuario'', JStr (strip_separators (rut_usuario d))),
                      (''PasswordSII'', JStr (password_sii d))],
      timeout = cfg_timeout cfg\<rparr>"

definition anular_path_try :: "env \<Rightarrow> nat \<Rightarrow> document \<Rightarrow> nat \<times> (exn + document)" where
  "anular_path_try E w d =
     (case get_simpleapi_config E of
        Inl e \<Rightarrow> (w, Inl e)
      | Inr cfg \<Rightarrow>
          (let folio = strip (field_str (numero_boleta d));
               motivo = field_str (motivo_anulacion d)
           in case post E w (anular_path_request cfg d) of
                Post_Raises m \<Rightarrow> (Suc w, Inl (LibraryError m))
              | Post_Returns resp \<Rightarrow>
                  (let body_preview = take 300 (resp_text resp) in
                   if status_code resp = 200 \<or> status_code resp = 202 then
                     (case json_body resp of
                        Inr (JObj kv) \<Rightarrow>
                          if success_flag E kv \<and> \<not> truthy (dict_get kv ''error'') then
                            (Suc w, Inr (message_post (d\<lparr>state := Cancelled\<rparr>)
                               (''Boleta '' @ folio @ '' anulada exitosamente (motivo '' @ motivo
                                  @ ''). Resp: '' @ repr E (JObj kv))
                               Notification))
                          else
                            (Suc w, Inl (UserError (''Error anulando boleta: ''
                               @ py_str E (py_or (dict_get kv ''error'') (JObj kv)))))
                      | other \<Rightarrow>
                          (let txt = strip (resp_text resp) in
                           if txt \<noteq> [] \<and> (contains (lower txt) ''anulada''
                                          \<or> contains (lower txt) ''correctamente'') then
                             (Suc w, Inr (message_post (d\<lparr>state := Cancelled\<rparr>)
                                (''Boleta '' @ folio @ '' anulada exitosamente (motivo '' @ motivo
                                   @ ''). Resp: '' @ txt)
                                Notification))
                           else
                             (Suc w, Inr (message_post (d\<lparr>state := Cancelled\<rparr>)
                                (''Boleta '' @ folio @ '' anulada (HTTP ''
                                   @ str_int (status_code resp) @ '') sin JSON; cuerpo: ''
                                   @ take 300 txt)
                                Notification))))
                   else
                     (Suc w, Inl (UserError (''Error anulando boleta: ''
                        @ str_int (status_code resp) @ '' - '' @ body_preview))))))"

definition anular_path_one :: "env \<Rightarrow> nat \<Rightarrow> document \<Rightarrow> nat \<times> (exn + document)" where
  "anular_path_one E w d =
     (if state d \<noteq> Emitted \<and> state d \<noteq> Downloaded then
        (w, Inl (UserError ''Solo se pueden anular boletas emitidas o descargadas''))
      else if \<not> field_truthy (numero_boleta d) then
        (w, Inl (UserError ''No existe folio para anular''))
      else if motivo_anulacion d \<noteq> Some ''1'' \<and> motivo_anulacion d \<noteq> Some ''2''
              \<and> motivo_anulacion d \<noteq> Some ''3'' then
        (w, Inl (UserError (''Debe seleccionar un motivo v'' @ [CHR 0xE1] @ ''lido (1, 2 o 3)'')))
      else
        (case anular_path_try E w d of
           (w', Inl (UserError m)) \<Rightarrow> (w', Inl (UserError m))
         | (w', Inl e) \<Rightarrow>
             (w', Inl (UserError (''Error inesperado anulando boleta: '' @ str_exn E e)))
         | (w', Inr d') \<Rightarrow> (w', Inr d')))"

fun action_anular_boleta_path ::
  "env \<Rightarrow> nat \<Rightarrow> document list \<Rightarrow> nat \<times> document list \<times> exn option" where
  "action_anular_boleta_path E w [] = (w, [], None)"
| "action_anular_boleta_path E w (d # ds) =
     (case anular_path_one E w d of
        (w', Inl e) \<Rightarrow> (w', d # ds, Some e)
      | (w', Inr d') \<Rightarrow>
          (case action_anular_boleta_path E w' ds of (w'', ds', r) \<Rightarrow> (w'', d' # ds', r)))"

section \<open>The RUT validator\<close>

text \<open>
  \<^verbatim>\<open>_validate_rut\<close>. \<open>rut_loop\<close> is the \<^verbatim>\<open>for\<close> loop over \<^verbatim>\<open>reversed(numero)\<close> with
  its two variables; \<^verbatim>\<open>int(d)\<close> raises on a character that is no decimal digit.
\<close>

fun rut_loop :: "string \<Rightarrow> nat \<Rightarrow> nat \<Rightarrow> exn + nat" where
  "rut_loop [] suma mult = Inr suma"
| "rut_loop (d # ds) suma mult =
     (case py_int [d] of
        None \<Rightarrow> Inl (ValueError [d])
      | Some v \<Rightarrow> rut_loop ds (suma + nat v * mult) (if mult < 7 then mult + 1 else 2))"

definition validate_rut :: "string \<Rightarrow> exn + bool" where
  "validate_rut rut0 =
     (if rut0 = [] then Inr False
      else
        (let rut = upper (strip_separators rut0) in
         if length rut < 8 then Inr False
         else
           (let numero = butlast rut; dv = last rut in
            if \<not> isdigit numero then Inr False
            else
              (case rut_loop (rev numero) 0 2 of
                 Inl e \<Rightarrow> Inl e
               | Inr suma \<Rightarrow>
                   (let resto = suma mod 11;
                        dv_calc = (if resto = 0 then ''0'' else if resto = 1 then ''K''
                                   else str_nat (11 - resto))
                    in Inr ([dv] = dv_calc))))))"

section \<open>The specification's words\<close>

text \<open>
  The classification of a response as the specification words it: \<^verbatim>\<open>success\<close> truthy, or
  one of \<^verbatim>\<open>numeroDocumento\<close>, \<^verbatim>\<open>numero\<close>, \<^verbatim>\<open>folio\<close> present as a key. The code's own
  test is \<open>is_successful\<close>.
\<close>

definition has_key :: "(string \<times> json) list \<Rightarrow> string \<Rightarrow> bool" where
  "has_key kv k = (k \<in> set (map fst kv))"

definition claimed_successful :: "(string \<times> json) list \<Rightarrow> bool" where
  "claimed_successful kv =
     (truthy (dict_get kv ''success'') \<or> has_key kv ''numeroDocumento'' \<or> has_key kv ''numero''
      \<or> has_key kv ''folio'')"

text \<open>The first non-empty value among fields tried in order.\<close>

definition first_nonempty :: "(string \<times> json) list \<Rightarrow> string list \<Rightarrow> json option" where
  "first_nonempty kv ks = find truthy (map (dict_get kv) ks)"

definition folio_fields :: "string list" where
  "folio_fields = [''folio'', ''numeroDocumento'', ''numero_boleta'', ''numeroBoleta'', ''numero'']"

text \<open>
  The check digit as the specification words it: the digits of the body weighted from
  the least significant one with 2, 3, 4, 5, 6, 7, 2, 3, ...; the sum modulo 11 gives
  \<^verbatim>\<open>0\<close> for 0, \<^verbatim>\<open>K\<close> for 1 and the digit \<open>11 - r\<close> otherwise.
\<close>

definition digit_value :: "char \<Rightarrow> nat" where
  "digit_value c = ord c - 48"

fun weighted_sum :: "nat list \<Rightarrow> nat \<Rightarrow> nat" where
  "weighted_sum [] i = 0"
| "weighted_sum (v # vs) i = v * (2 + i mod 6) + weighted_sum vs (Suc i)"

definition check_digit :: "string \<Rightarrow> char" where
  "check_digit numero =
     (let r = weighted_sum (map digit_value (rev numero)) 0 mod 11
      in if r = 0 then CHR ''0'' else if r = 1 then CHR ''K'' else char_of (48 + (11 - r)))"

section \<open>Concrete inputs\<close>

text \<open>
  Inputs for the examples below. \<open>example_repr\<close> and \<open>example_dumps\<close> are \<^verbatim>\<open>repr\<close> and
  \<^verbatim>\<open>json.dumps(_, indent=2)\<close> on values whose strings hold no quote, backslash, control or
  non-ASCII character. \<open>example_env\<close> has an empty parameter store (every default
  applies) and answers every request with the given result.
\<close>

definition join :: "string \<Rightarrow> string list \<Rightarrow> string" where
  "join sep xs = (case xs of [] \<Rightarrow> [] | y # ys \<Rightarrow> y @ concat (map (\<lambda>z. sep @ z) ys))"

fun example_repr :: "json \<Rightarrow> string" where
  "example_repr JNull = ''None''"
| "example_repr (JBool b) = (if b then ''True'' else ''False'')"
| "example_repr (JInt n) = str_int n"
| "example_repr (JStr s) = [CHR 0x27] @ s @ [CHR 0x27]"
| "example_repr (JList xs) = ''['' @ join '', '' (map example_repr xs) @ '']''"
| "example_repr (JObj kv) =
     ''{'' @ join '', '' (map (\<lambda>p. [CHR 0x27] @ fst p @ [CHR 0x27] @ '': '' @ example_repr (snd p)) kv)
        @ ''}''"

fun dumps_at :: "nat \<Rightarrow> json \<Rightarrow> string" where
  "dumps_at n JNull = ''null''"
| "dumps_at n (JBool b) = (if b then ''true'' else ''false'')"
| "dumps_at n (JInt i) = str_int i"
| "dumps_at n (JStr s) = [CHR 0x22] @ s @ [CHR 0x22]"
| "dumps_at n (JList xs) =
     (if xs = [] then ''[]''
      else ''['' @ [CHR 0x0A]
           @ join ('','' @ [CHR 0x0A])
               (map (\<lambda>v. replicate (2 * Suc n) CHR '' '' @ dumps_at (Suc n) v) xs)
           @ [CHR 0x0A] @ replicate (2 * n) CHR '' '' @ '']'')"
| "dumps_at n (JObj kv) =
     (if kv = [] then ''{}''
      else ''{'' @ [CHR 0x0A]
           @ join ('','' @ [CHR 0x0A])
               (map (\<lambda>p. replicate (2 * Suc n) CHR '' '' @ [CHR 0x22] @ fst p @ [CHR 0x22] @ '': ''
                          @ dumps_at (Suc n) (snd p)) kv)
           @ [CHR 0x0A] @ replicate (2 * n) CHR '' '' @ ''}'')"

definition example_dumps :: "json \<Rightarrow> string" where
  "example_dumps j = dumps_at 0 j"

definition example_env :: "post_result \<Rightarrow> env" where
  "example_env r =
     \<lparr>get_param = (\<lambda>k. None), post = (\<lambda>n req. r), clock = (\<lambda>n. 1700000000 + n),
      dumps = example_dumps, repr = example_repr\<rparr>"

definition returns :: "int \<Rightarrow> string \<Rightarrow> string + json \<Rightarrow> post_result" where
  "returns st body j = Post_Returns \<lparr>status_code = st, resp_text = body, json_body = j\<rparr>"

definition example_doc :: document where
  "example_doc =
     \<lparr>numero_boleta = None,
      fecha_emision = \<lparr>year = 2024, month = 3, day = 7\<rparr>,
      state = Draft,
      rut_usuario = ''12.345.678-5'',
      password_sii = ''secreto'',
      direccion_emisor = Principal,
      retencion = Con_Retencion,
      receptor_rut = ''11.111.111-1'',
      receptor_nombre = ''Cliente'',
      receptor_direccion = ''Calle 1'',
      receptor_region = 13,
      receptor_comuna = ''Santiago'',
      descripcion_servicio = ''Asesoria'',
      valor_bruto = 100000,
      response_data = None,
      email_destinatario = Some ''correo@dominio.cl'',
      error_message = None,
      fecha_procesamiento = None,
      intentos = 0,
      motivo_anulacion = None,
      messages = []\<rparr>"

text \<open>An issued document: folio 123, ready to be voided with reason 1.\<close>

definition emitted_doc :: document where
  "emitted_doc = example_doc\<lparr>numero_boleta := Some ''123'', state := Emitted,
                              intentos := 1, motivo_anulacion := Some ''1''\<rparr>"

text \<open>
  Answers of the service: a JSON body (its text is the serialised value) and a
  plain-text body, on which \<^verbatim>\<open>resp.json()\<close> raises.
\<close>

definition json_returns :: "int \<Rightarrow> json \<Rightarrow> post_result" where
  "json_returns st j = returns st (example_dumps j) (Inr j)"

definition text_returns :: "int \<Rightarrow> string \<Rightarrow> post_result" where
  "text_returns st body = returns st body (Inl ''Expecting value: line 1 column 1 (char 0)'')"

definition default_config :: config where
  "default_config = \<lparr>api_key = ''4648-N330-6392-2590-9354'',
                      base_url = ''https://servicios.simpleapi.cl/api'', cfg_timeout = 30\<rparr>"

definition folio_response :: "(string \<times> json) list" where
  "folio_response = [(''folio'', JStr ''123''), (''anio'', JStr ''2024'')]"

definition success_only_response :: "(string \<times> json) list" where
  "success_only_response = [(''success'', JBool True)]"

definition empty_folio_response :: "(string \<times> json) list" where
  "empty_folio_response = [(''folio'', JStr ''''), (''numero_boleta'', JStr ''55'')]"

definition no_description_doc :: document where
  "no_description_doc = example_doc\<lparr>descripcion_servicio := []\<rparr>"

definition null_error_response :: "(string \<times> json) list" where
  "null_error_response = [(''error'', JNull)]"

definition x_error_response :: "(string \<times> json) list" where
  "x_error_response = [(''error'', JStr ''x'')]"

definition keyword_list_response :: json where
  "keyword_list_response = JList [JStr ''Boleta anulada correctamente'']"

text \<open>A RUT whose body holds the superscript two, U+00B2.\<close>

definition superscript_rut :: string where
  "superscript_rut = ''1234567'' @ [CHR 0xB2] @ ''5''"

section \<open>Frame lemmas\<close>

lemma message_post_simps [simp]:
  "state (message_post d b t) = state d"
  "numero_boleta (message_post d b t) = numero_boleta d"
  "error_message (message_post d b t) = error_message d"
  "intentos (message_post d b t) = intentos d"
  "fecha_procesamiento (message_post d b t) = fecha_procesamiento d"
  "response_data (message_post d b t) = response_data d"
  "email_destinatario (message_post d b t) = email_destinatario d"
  "descripcion_servicio (message_post d b t) = descripcion_servicio d"
  "valor_bruto (message_post d b t) = valor_bruto d"
  "fecha_emision (message_post d b t) = fecha_emision d"
  "messages (message_post d b t) = messages d @ [(b, t)]"
  by (simp_all add: message_post_def)

lemma emitir_begin_simps [simp]:
  "state (emitir_begin E w d) = Processing"
  "intentos (emitir_begin E w d) = intentos d + 1"
  "fecha_procesamiento (emitir_begin E w d) = Some (clock E w)"
  "numero_boleta (emitir_begin E w d) = numero_boleta d"
  "descripcion_servicio (emitir_begin E w d) = descripcion_servicio d"
  "valor_bruto (emitir_begin E w d) = valor_bruto d"
  "email_destinatario (emitir_begin E w d) = email_destinatario d"
  "prepare_api_data (emitir_begin E w d) = prepare_api_data d"
  "emitir_begin E w (d\<lparr>state := s\<rparr>) = emitir_begin E w d"
  by (simp_all add: emitir_begin_def prepare_api_data_def message_post_def)

lemma emitir_begin_messages:
  "messages (emitir_begin E w d) =
     messages d @ [(''Iniciando emisi'' @ [CHR 0xF3] @ ''n de boleta de honorarios...'', Unspecified)]"
  by (simp add: emitir_begin_def)

lemma send_mail_posts:
  assumes "send_mail_via_simpleapi E w d f a e = (w', Inr (b, d'))"
  shows "\<exists>m t. d' = message_post d m t"
  using assms
  by (auto simp: send_mail_via_simpleapi_def split: sum.splits post_result.splits if_splits)

lemma process_successful_response_found:
  assumes "truthy (extract_folio kv)"
  shows "state (snd (process_successful_response E w d kv)) = Emitted"
    and "numero_boleta (snd (process_successful_response E w d kv)) = Some (py_str E (extract_folio kv))"
    and "error_message (snd (process_successful_response E w d kv)) = None"
  using assms
  by (auto simp: process_successful_response_def Let_def split: prod.splits sum.splits
           dest!: send_mail_posts)

lemma process_successful_response_no_folio:
  assumes "\<not> truthy (extract_folio kv)"
  shows "process_successful_response E w d kv =
           (w, message_post
                 (d\<lparr>response_data := Some (dumps E (JObj kv)), state := Error,
                    error_message :=
                      Some (''Respuesta exitosa pero sin n'' @ [CHR 0xFA] @ ''mero de boleta'')\<rparr>)
                 (''Respuesta exitosa sin folio. Response: '' @ dumps E (JObj kv)) Comment)"
  using assms by (simp add: process_successful_response_def Let_def field_str_def)

lemma process_successful_response_frame:
  "intentos (snd (process_successful_response E w d kv)) = intentos d"
  "fecha_procesamiento (snd (process_successful_response E w d kv)) = fecha_procesamiento d"
  "state (snd (process_successful_response E w d kv)) = Emitted
     \<or> state (snd (process_successful_response E w d kv)) = Error"
  "\<exists>ms. messages (snd (process_successful_response E w d kv)) = messages d @ ms"
  by (auto simp: process_successful_response_def Let_def split: prod.splits sum.splits
           dest!: send_mail_posts)

lemma process_error_response_simps [simp]:
  "state (process_error_response E d kv) = Error"
  "intentos (process_error_response E d kv) = intentos d"
  "fecha_procesamiento (process_error_response E d kv) = fecha_procesamiento d"
  "numero_boleta (process_error_response E d kv) = numero_boleta d"
  "response_data (process_error_response E d kv) = Some (dumps E (JObj kv))"
  by (simp_all add: process_error_response_def Let_def)

lemma process_error_response_messages:
  "\<exists>ms. messages (process_error_response E d kv) = messages d @ ms"
  by (simp add: process_error_response_def Let_def)

lemma emitir_try_frame:
  assumes "emitir_try E w d = (w', Inr d2)"
  shows "intentos d2 = intentos d"
    and "fecha_procesamiento d2 = fecha_procesamiento d"
    and "state d2 = Emitted \<or> state d2 = Error"
    and "\<exists>ms. messages d2 = messages d @ ms"
proof -
  have valid: "descripcion_servicio d \<noteq> []" "\<not> valor_bruto d \<le> 0"
    using assms by (auto simp: emitir_try_def split: if_splits)
  obtain v kv where call: "call_simpleapi E w (prepare_api_data d) = (v, Inr (JObj kv))"
    and res: "(is_successful kv \<and> d2 = snd (process_successful_response E v d kv))
              \<or> (\<not> is_successful kv \<and> d2 = process_error_response E d kv)"
    using assms
    by (auto simp: emitir_try_def split: if_splits prod.splits sum.splits json.splits)
  from res process_successful_response_frame [of E v d kv] process_error_response_messages [of E d kv]
  show "intentos d2 = intentos d" "fecha_procesamiento d2 = fecha_procesamiento d"
    "state d2 = Emitted \<or> state d2 = Error" "\<exists>ms. messages d2 = messages d @ ms"
    by auto
qed

lemma emitir_one_dispatch:
  assumes "descripcion_servicio d \<noteq> []" and "0 < valor_bruto d"
    and "email_destinatario d = Some mail" and "CHR ''@'' \<in> set mail"
    and "call_simpleapi E (Suc w) (prepare_api_data d) = (w', Inr (JObj kv))"
  shows "emitir_one E w d =
           (if is_successful kv then process_successful_response E w' (emitir_begin E w d) kv
            else (w', process_error_response E (emitir_begin E w d) kv))"
proof -
  have mail: "mail \<noteq> []" using assms(4) by auto
  show ?thesis
    using assms mail
    by (simp add: emitir_one_def emitir_try_def field_truthy_def field_str_def Let_def
             split: prod.splits)
qed

lemma first_nonempty_folio:
  "first_nonempty kv folio_fields =
     (if truthy (extract_folio kv) then Some (extract_folio kv) else None)"
  by (simp add: first_nonempty_def folio_fields_def extract_folio_def py_or_def)

section \<open>Issuance: the claims\<close>

text \<open>
  C1, as amended. A response that \<^verbatim>\<open>action_emitir_boleta\<close> classifies as successful is one
  in which \<^verbatim>\<open>success\<close>, \<^verbatim>\<open>numeroDocumento\<close>, \<^verbatim>\<open>numero\<close> or \<^verbatim>\<open>folio\<close> is truthy (not
  merely present). For every such response to a document that passes the three
  checks, the folio extracted is the first truthy value among \<^verbatim>\<open>folio\<close>,
  \<^verbatim>\<open>numeroDocumento\<close>, \<^verbatim>\<open>numero_boleta\<close>, \<^verbatim>\<open>numeroBoleta\<close>, \<^verbatim>\<open>numero\<close> in that order, and
  when there is one the document ends in state \<open>Emitted\<close> with \<^verbatim>\<open>numero_boleta\<close> the
  folio as a string and \<^verbatim>\<open>error_message\<close> cleared.
\<close>

theorem issuance_success_sets_folio:
  assumes "descripcion_servicio d \<noteq> []" and "0 < valor_bruto d"
    and "email_destinatario d = Some mail" and "CHR ''@'' \<in> set mail"
    and "call_simpleapi E (Suc w) (prepare_api_data d) = (w', Inr (JObj kv))"
    and "is_successful kv"
  shows "first_nonempty kv folio_fields =
           (if truthy (extract_folio kv) then Some (extract_folio kv) else None)
         \<and> (\<forall>f. first_nonempty kv folio_fields = Some f \<longrightarrow>
               state (snd (emitir_one E w d)) = Emitted
               \<and> numero_boleta (snd (emitir_one E w d)) = Some (py_str E f)
               \<and> error_message (snd (emitir_one E w d)) = None)"
proof (intro conjI allI impI)
  show "first_nonempty kv folio_fields =
          (if truthy (extract_folio kv) then Some (extract_folio kv) else None)"
    by (rule first_nonempty_folio)
next
  fix f assume "first_nonempty kv folio_fields = Some f"
  then have found: "truthy (extract_folio kv)" and f: "f = extract_folio kv"
    by (auto simp: first_nonempty_folio split: if_splits)
  have run: "emitir_one E w d = process_successful_response E w' (emitir_begin E w d) kv"
    using emitir_one_dispatch [OF assms(1-5)] assms(6) by simp
  show "state (snd (emitir_one E w d)) = Emitted"
    by (simp add: run process_successful_response_found(1) [OF found])
  show "numero_boleta (snd (emitir_one E w d)) = Some (py_str E f)"
    by (simp add: run f process_successful_response_found(2) [OF found])
  show "error_message (snd (emitir_one E w d)) = None"
    by (simp add: run process_successful_response_found(3) [OF found])
qed

text \<open>
  C4. A response classified as successful in which none of the five folio fields is
  truthy: the \<^verbatim>\<open>try\<close> block ends without an exception, and the document is in state
  \<open>Error\<close> with the message \<^verbatim>\<open>Respuesta exitosa pero sin numero de boleta\<close> (with its
  accent), the serialised response in \<^verbatim>\<open>response_data\<close>, and a comment posted that holds it.
\<close>

theorem success_without_folio_is_error:
  assumes "descripcion_servicio d \<noteq> []" and "0 < valor_bruto d"
    and "email_destinatario d = Some mail" and "CHR ''@'' \<in> set mail"
    and "call_simpleapi E (Suc w) (prepare_api_data d) = (w', Inr (JObj kv))"
    and "is_successful kv"
    and "first_nonempty kv folio_fields = None"
  shows "(\<exists>d2. emitir_try E (Suc w) (emitir_begin E w d) = (w', Inr d2))
         \<and> state (snd (emitir_one E w d)) = Error
         \<and> error_message (snd (emitir_one E w d)) =
              Some (''Respuesta exitosa pero sin n'' @ [CHR 0xFA] @ ''mero de boleta'')
         \<and> response_data (snd (emitir_one E w d)) = Some (dumps E (JObj kv))
         \<and> last (messages (snd (emitir_one E w d))) =
              (''Respuesta exitosa sin folio. Response: '' @ dumps E (JObj kv), Comment)"
proof -
  have none: "\<not> truthy (extract_folio kv)"
    using assms(7) by (simp add: first_nonempty_folio split: if_splits)
  have mail: "mail \<noteq> []" using assms(4) by auto
  have run: "emitir_one E w d = process_successful_response E w' (emitir_begin E w d) kv"
    using emitir_one_dispatch [OF assms(1-5)] assms(6) by simp
  have tried: "\<exists>d2. emitir_try E (Suc w) (emitir_begin E w d) = (w', Inr d2)"
    using assms(1-6) mail
    by (simp add: emitir_try_def field_truthy_def field_str_def
          process_successful_response_no_folio [OF none])
  show ?thesis
    using tried by (simp add: run process_successful_response_no_folio [OF none])
qed

text \<open>
  C7. Issuance looks at no state: whatever the state of the document, also \<open>Emitted\<close>,
  the operation runs and gives the result it gives from any other state. It first sets
  the state \<open>Processing\<close>, adds one to \<^verbatim>\<open>intentos\<close>, stamps \<^verbatim>\<open>fecha_procesamiento\<close> and
  posts the opening message; the counter and the stamp stand in the final document
  whatever happens afterwards (a failed check included), and the final state is
  \<open>Emitted\<close> or \<open>Error\<close>.
\<close>

theorem issuance_ignores_state_and_counts:
  "emitir_one E w (d\<lparr>state := s\<rparr>) = emitir_one E w d
   \<and> state (emitir_begin E w d) = Processing
   \<and> intentos (emitir_begin E w d) = intentos d + 1
   \<and> fecha_procesamiento (emitir_begin E w d) = Some (clock E w)
   \<and> intentos (snd (emitir_one E w d)) = intentos d + 1
   \<and> fecha_procesamiento (snd (emitir_one E w d)) = Some (clock E w)
   \<and> take (Suc (length (messages d))) (messages (snd (emitir_one E w d))) =
        messages d @ [(''Iniciando emisi'' @ [CHR 0xF3] @ ''n de boleta de honorarios...'', Unspecified)]
   \<and> (state (snd (emitir_one E w d)) = Emitted \<or> state (snd (emitir_one E w d)) = Error)"
proof -
  let ?d1 = "emitir_begin E w d"
  obtain w' r where tried: "emitir_try E (Suc w) ?d1 = (w', r)"
    by (cases "emitir_try E (Suc w) ?d1")
  have same: "emitir_one E w (d\<lparr>state := s\<rparr>) = emitir_one E w d"
    by (simp add: emitir_one_def)
  have rest: "intentos (snd (emitir_one E w d)) = intentos d + 1
      \<and> fecha_procesamiento (snd (emitir_one E w d)) = Some (clock E w)
      \<and> take (Suc (length (messages d))) (messages (snd (emitir_one E w d))) =
           messages d @ [(''Iniciando emisi'' @ [CHR 0xF3] @ ''n de boleta de honorarios...'', Unspecified)]
      \<and> (state (snd (emitir_one E w d)) = Emitted \<or> state (snd (emitir_one E w d)) = Error)"
  proof (cases r)
    case (Inl e)
    then show ?thesis
      using tried by (simp add: emitir_one_def Let_def emitir_begin_messages)
  next
    case (Inr d2)
    from emitir_try_frame [OF tried [unfolded Inr]]
    obtain ms where "intentos d2 = intentos ?d1" "fecha_procesamiento d2 = fecha_procesamiento ?d1"
      "state d2 = Emitted \<or> state d2 = Error" "messages d2 = messages ?d1 @ ms"
      by blast
    then show ?thesis
      using tried Inr by (simp add: emitir_one_def Let_def emitir_begin_messages)
  qed
  show ?thesis using same rest by simp
qed

text \<open>
  C2. \<^verbatim>\<open>action_emitir_boleta\<close> returns to its caller for every batch (it has no exception
  among its results), with one document per document given. Each document is issued by
  \<open>emitir_one\<close> from the world the documents before it left, whatever happened to them,
  and the documents after it are issued in turn. When the \<^verbatim>\<open>try\<close> block of a document
  raises an exception \<open>e\<close> (a failed check, an API error or any other), the document
  ends in state \<open>Error\<close> with \<^verbatim>\<open>str(e)\<close> in \<^verbatim>\<open>error_message\<close> and a comment posted that
  holds it.
\<close>

theorem issuance_batch_continues:
  "length (snd (action_emitir_boleta E w ds)) = length ds
   \<and> action_emitir_boleta E w (ds @ d # ds') =
       (case action_emitir_boleta E w ds of
          (w1, r1) \<Rightarrow>
            (case emitir_one E w1 d of
               (w2, d') \<Rightarrow>
                 (case action_emitir_boleta E w2 ds' of (w3, r3) \<Rightarrow> (w3, r1 @ d' # r3))))
   \<and> (emitir_try E (Suc w) (emitir_begin E w d) = (w', Inl e) \<longrightarrow>
        fst (emitir_one E w d) = w'
        \<and> state (snd (emitir_one E w d)) = Error
        \<and> error_message (snd (emitir_one E w d)) = Some (str_exn E e)
        \<and> last (messages (snd (emitir_one E w d))) =
             (''Error emitiendo boleta: '' @ str_exn E e, Comment))"
proof (intro conjI impI)
  show "length (snd (action_emitir_boleta E w ds)) = length ds"
  proof (induction ds arbitrary: w)
    case Nil
    show ?case by simp
  next
    case (Cons a ds)
    obtain w1 a' where one: "emitir_one E w a = (w1, a')"
      by (cases "emitir_one E w a")
    obtain w2 r where rest: "action_emitir_boleta E w1 ds = (w2, r)"
      by (cases "action_emitir_boleta E w1 ds")
    from Cons.IH [of w1] rest have "length r = length ds" by simp
    then show ?case by (simp add: one rest)
  qed
next
  show "action_emitir_boleta E w (ds @ d # ds') =
       (case action_emitir_boleta E w ds of
          (w1, r1) \<Rightarrow>
            (case emitir_one E w1 d of
               (w2, d') \<Rightarrow>
                 (case action_emitir_boleta E w2 ds' of (w3, r3) \<Rightarrow> (w3, r1 @ d' # r3))))"
    by (induction ds arbitrary: w) (auto split: prod.splits)
next
  assume "emitir_try E (Suc w) (emitir_begin E w d) = (w', Inl e)"
  then show "fst (emitir_one E w d) = w'"
    "state (snd (emitir_one E w d)) = Error"
    "error_message (snd (emitir_one E w d)) = Some (str_exn E e)"
    "last (messages (snd (emitir_one E w d))) = (''Error emitiendo boleta: '' @ str_exn E e, Comment)"
    by (simp_all add: emitir_one_def Let_def)
qed

section \<open>Issuance: examples\<close>

lemma py_int_30: "py_int ''30'' = Some 30"
  by code_simp

lemma example_config: "get_simpleapi_config (example_env r) = Inr default_config"
  by (simp add: get_simpleapi_config_def param_def example_env_def py_int_30 default_config_def)

lemma example_call:
  "call_simpleapi (example_env (json_returns 200 j)) w data = (Suc w, Inr j)"
  by (simp add: call_simpleapi_def example_config)
     (simp add: example_env_def json_returns_def returns_def)

lemma example_doc_valid:
  "descripcion_servicio example_doc \<noteq> []" "0 < valor_bruto example_doc"
  "email_destinatario example_doc = Some ''correo@dominio.cl''"
  "CHR ''@'' \<in> set ''correo@dominio.cl''"
  by (simp_all add: example_doc_def)

lemma example_issue:
  "state (snd (emitir_one (example_env (json_returns 200 (JObj folio_response))) w example_doc))
     = Emitted"
proof -
  have found: "truthy (extract_folio folio_response)"
    by (simp add: extract_folio_def folio_response_def dict_get_def py_or_def)
  have ok: "is_successful folio_response"
    by (simp add: is_successful_def folio_response_def dict_get_def)
  show ?thesis
    using emitir_one_dispatch [OF example_doc_valid example_call] ok
    by (simp add: process_successful_response_found(1) [OF found])
qed

text \<open>C1, witness: the response \<^verbatim>\<open>{"folio": "123", "anio": "2024"}\<close>.\<close>

theorem issuance_success_example:
  "is_successful folio_response
   \<and> state (snd (emitir_one (example_env (json_returns 200 (JObj folio_response))) 0 example_doc))
       = Emitted
   \<and> numero_boleta
        (snd (emitir_one (example_env (json_returns 200 (JObj folio_response))) 0 example_doc))
       = Some ''123''
   \<and> error_message
        (snd (emitir_one (example_env (json_returns 200 (JObj folio_response))) 0 example_doc))
       = None"
proof -
  have ok: "is_successful folio_response"
    by (simp add: is_successful_def folio_response_def dict_get_def)
  have first: "first_nonempty folio_response folio_fields = Some (JStr ''123'')"
    by (simp add: first_nonempty_def folio_fields_def folio_response_def dict_get_def)
  from issuance_success_sets_folio [OF example_doc_valid example_call ok] first ok
  show ?thesis by simp
qed

text \<open>
  C1, counterexample to the claim as worded: in \<^verbatim>\<open>{"folio": "", "numero_boleta": "55"}\<close>
  the key \<^verbatim>\<open>folio\<close> is present and the first non-empty folio field is \<^verbatim>\<open>"55"\<close>, yet the
  document ends in \<open>Error\<close> with no \<^verbatim>\<open>numero_boleta\<close>: no tested field is truthy.
\<close>

theorem present_but_empty_folio_not_issued:
  "claimed_successful empty_folio_response
   \<and> first_nonempty empty_folio_response folio_fields = Some (JStr ''55'')
   \<and> state (snd (emitir_one (example_env (json_returns 200 (JObj empty_folio_response))) 0
                   example_doc)) = Error
   \<and> numero_boleta (snd (emitir_one (example_env (json_returns 200 (JObj empty_folio_response))) 0
                           example_doc)) = None"
proof -
  have claimed: "claimed_successful empty_folio_response"
    by (simp add: claimed_successful_def has_key_def empty_folio_response_def)
  have first: "first_nonempty empty_folio_response folio_fields = Some (JStr ''55'')"
    by (simp add: first_nonempty_def folio_fields_def empty_folio_response_def dict_get_def)
  have no: "\<not> is_successful empty_folio_response"
    by (simp add: is_successful_def empty_folio_response_def dict_get_def)
  have run: "emitir_one (example_env (json_returns 200 (JObj empty_folio_response))) 0 example_doc =
      (Suc (Suc 0), process_error_response (example_env (json_returns 200 (JObj empty_folio_response)))
          (emitir_begin (example_env (json_returns 200 (JObj empty_folio_response))) 0 example_doc)
          empty_folio_response)"
    using emitir_one_dispatch [OF example_doc_valid example_call] no by simp
  show ?thesis
    using claimed first by (simp add: run) (simp add: example_doc_def)
qed

text \<open>C4, witness: the response \<^verbatim>\<open>{"success": true}\<close>.\<close>

theorem success_without_folio_example:
  "is_successful success_only_response
   \<and> first_nonempty success_only_response folio_fields = None
   \<and> state (snd (emitir_one (example_env (json_returns 200 (JObj success_only_response))) 0
                   example_doc)) = Error
   \<and> error_message (snd (emitir_one (example_env (json_returns 200 (JObj success_only_response))) 0
                           example_doc))
       = Some (''Respuesta exitosa pero sin n'' @ [CHR 0xFA] @ ''mero de boleta'')"
proof -
  have ok: "is_successful success_only_response"
    by (simp add: is_successful_def success_only_response_def dict_get_def)
  have first: "first_nonempty success_only_response folio_fields = None"
    by (simp add: first_nonempty_def folio_fields_def success_only_response_def dict_get_def)
  from success_without_folio_is_error [OF example_doc_valid example_call ok first] ok first
  show ?thesis by simp
qed

text \<open>C7, witness: a document already \<open>Emitted\<close> is issued again, as attempt 1 after 0.\<close>

theorem reissue_emitted_example:
  "intentos (snd (emitir_one (example_env (json_returns 200 (JObj folio_response))) 0
                    (example_doc\<lparr>state := Emitted\<rparr>))) = 1
   \<and> fecha_procesamiento (snd (emitir_one (example_env (json_returns 200 (JObj folio_response))) 0
                    (example_doc\<lparr>state := Emitted\<rparr>))) = Some 1700000000"
  using issuance_ignores_state_and_counts
          [where E = "example_env (json_returns 200 (JObj folio_response))" and w = 0
             and d = "example_doc\<lparr>state := Emitted\<rparr>" and s = Emitted]
  by (simp add: example_doc_def example_env_def)

text \<open>
  C2, witness: three documents of which the second has no description. The second ends
  in \<open>Error\<close> with the message of the failed check; the first and the third are issued.
\<close>

theorem batch_of_three_example:
  "emitir_try (example_env (json_returns 200 (JObj folio_response))) (Suc 3)
       (emitir_begin (example_env (json_returns 200 (JObj folio_response))) 3 no_description_doc)
     = (Suc 3, Inl (UserError (''Debe agregar una descripci'' @ [CHR 0xF3] @ ''n del servicio'')))
   \<and> error_message (snd (emitir_one (example_env (json_returns 200 (JObj folio_response))) 3
                           no_description_doc))
       = Some (''Debe agregar una descripci'' @ [CHR 0xF3] @ ''n del servicio'')
   \<and> map state (snd (action_emitir_boleta (example_env (json_returns 200 (JObj folio_response))) 0
                        [example_doc, no_description_doc, example_doc]))
       = [Emitted, Error, Emitted]"
proof -
  let ?E = "example_env (json_returns 200 (JObj folio_response))"
  have bad: "emitir_try ?E (Suc w) (emitir_begin ?E w no_description_doc)
      = (Suc w, Inl (UserError (''Debe agregar una descripci'' @ [CHR 0xF3] @ ''n del servicio'')))"
    for w
    by (simp add: emitir_try_def no_description_doc_def)
  note batch = issuance_batch_continues [of ?E _ _ no_description_doc]
  have err: "state (snd (emitir_one ?E w no_description_doc)) = Error" for w
    using batch [of w "[]" "[]" "Suc w"] bad [of w] by simp
  have msg: "error_message (snd (emitir_one ?E 3 no_description_doc))
      = Some (''Debe agregar una descripci'' @ [CHR 0xF3] @ ''n del servicio'')"
    using batch [of 3 "[]" "[]" "Suc 3"] bad [of 3] by simp
  have states: "map state (snd (action_emitir_boleta ?E 0
                  [example_doc, no_description_doc, example_doc])) = [Emitted, Error, Emitted]"
    by (simp add: split_beta example_issue err)
  show ?thesis using bad [of 3] msg states by simp
qed

section \<open>The mail request after issuance\<close>

lemma mail_request_frame [simp]:
  "mail_request cfg (message_post d b t) f a e = mail_request cfg d f a e"
  "mail_request cfg (d\<lparr>response_data := r\<rparr>) f a e = mail_request cfg d f a e"
  "mail_request cfg (d\<lparr>numero_boleta := n\<rparr>) f a e = mail_request cfg d f a e"
  "mail_request cfg (d\<lparr>state := s\<rparr>) f a e = mail_request cfg d f a e"
  "mail_request cfg (d\<lparr>error_message := x\<rparr>) f a e = mail_request cfg d f a e"
  by (simp_all add: mail_request_def message_post_def)

lemma resolve_anio_frame [simp]:
  "resolve_anio E (message_post d b t) kv = resolve_anio E d kv"
  "resolve_anio E (d\<lparr>response_data := r\<rparr>) kv = resolve_anio E d kv"
  "resolve_anio E (d\<lparr>numero_boleta := n\<rparr>) kv = resolve_anio E d kv"
  "resolve_anio E (d\<lparr>state := s\<rparr>) kv = resolve_anio E d kv"
  "resolve_anio E (d\<lparr>error_message := x\<rparr>) kv = resolve_anio E d kv"
  by (simp_all add: resolve_anio_def message_post_def del: extract_anio.simps split: option.splits)

text \<open>
  C8. Once a folio is found, \<^verbatim>\<open>_process_successful_response\<close> leaves the document in
  \<open>Emitted\<close> with its folio and no error message, whatever the mail request does. When
  the request raises, or returns a status other than 200 and 202 (so every status
  outside 2xx), the final document is the issued one with one more comment posted,
  which reports the failure.
\<close>

theorem mail_failure_keeps_issuance:
  assumes "truthy (extract_folio kv)"
    and "get_simpleapi_config E = Inr cfg"
    and "email_destinatario d = Some mail" and "mail \<noteq> []"
    and "resolve_anio E d kv \<noteq> 0"
  shows "let folio = py_str E (extract_folio kv);
             issued = message_post
                        (d\<lparr>response_data := Some (dumps E (JObj kv)), numero_boleta := Some folio,
                           state := Emitted, error_message := None\<rparr>)
                        (''Boleta emitida exitosamente. N'' @ [CHR 0xFA] @ ''mero: '' @ folio)
                        Notification;
             req = mail_request cfg d folio (resolve_anio E d kv) mail;
             d' = snd (process_successful_response E w d kv)
         in state d' = Emitted \<and> numero_boleta d' = Some folio \<and> error_message d' = None
            \<and> (\<forall>m. post E w req = Post_Raises m \<longrightarrow>
                  d' = message_post issued
                         (''Error solicitando env'' @ [CHR 0xED] @ ''o por correo: '' @ m) Comment)
            \<and> (\<forall>resp. post E w req = Post_Returns resp \<and> status_code resp \<noteq> 200
                        \<and> status_code resp \<noteq> 202 \<longrightarrow>
                  d' = message_post issued
                         (''No se pudo solicitar env'' @ [CHR 0xED] @ ''o por correo (POST). Status ''
                            @ str_int (status_code resp) @ ''. Body: '' @ take 300 (resp_text resp))
                         Comment)"
proof -
  have raised: "snd (process_successful_response E w d kv) =
      message_post
        (message_post
           (d\<lparr>response_data := Some (dumps E (JObj kv)),
              numero_boleta := Some (py_str E (extract_folio kv)),
              state := Emitted, error_message := None\<rparr>)
           (''Boleta emitida exitosamente. N'' @ [CHR 0xFA] @ ''mero: '' @ py_str E (extract_folio kv))
           Notification)
        (''Error solicitando env'' @ [CHR 0xED] @ ''o por correo: '' @ m) Comment"
    if "post E w (mail_request cfg d (py_str E (extract_folio kv)) (resolve_anio E d kv) mail)
          = Post_Raises m" for m
    using assms that
    by (simp add: process_successful_response_def Let_def field_truthy_def field_str_def
          send_mail_via_simpleapi_def)
  have refused: "snd (process_successful_response E w d kv) =
      message_post
        (message_post
           (d\<lparr>response_data := Some (dumps E (JObj kv)),
              numero_boleta := Some (py_str E (extract_folio kv)),
              state := Emitted, error_message := None\<rparr>)
           (''Boleta emitida exitosamente. N'' @ [CHR 0xFA] @ ''mero: '' @ py_str E (extract_folio kv))
           Notification)
        (''No se pudo solicitar env'' @ [CHR 0xED] @ ''o por correo (POST). Status ''
           @ str_int (status_code resp) @ ''. Body: '' @ take 300 (resp_text resp)) Comment"
    if "post E w (mail_request cfg d (py_str E (extract_folio kv)) (resolve_anio E d kv) mail)
          = Post_Returns resp" and "status_code resp \<noteq> 200" and "status_code resp \<noteq> 202"
    for resp
    using assms that
    by (simp add: process_successful_response_def Let_def field_truthy_def field_str_def
          send_mail_via_simpleapi_def)
  show ?thesis
    unfolding Let_def
    using process_successful_response_found [OF assms(1), of E w d] raised refused
    by blast
qed

lemma py_int_2024: "py_int ''2024'' = Some 2024"
  by code_simp

lemma str_nat_500: "str_nat 500 = ''500''"
  by code_simp

lemma example_anio: "resolve_anio E example_doc folio_response = 2024"
  by (simp add: resolve_anio_def folio_response_def dict_get_def py_int_2024)

text \<open>C8, witness: the mail request is answered with status 500.\<close>

theorem mail_failure_example:
  "state (snd (process_successful_response (example_env (text_returns 500 ''Internal Server Error''))
                 2 example_doc folio_response)) = Emitted
   \<and> numero_boleta (snd (process_successful_response
                 (example_env (text_returns 500 ''Internal Server Error''))
                 2 example_doc folio_response)) = Some ''123''
   \<and> error_message (snd (process_successful_response
                 (example_env (text_returns 500 ''Internal Server Error''))
                 2 example_doc folio_response)) = None
   \<and> last (messages (snd (process_successful_response
                 (example_env (text_returns 500 ''Internal Server Error''))
                 2 example_doc folio_response)))
       = (''No se pudo solicitar env'' @ [CHR 0xED]
            @ ''o por correo (POST). Status 500. Body: Internal Server Error'', Comment)"
proof -
  let ?E = "example_env (text_returns 500 ''Internal Server Error'')"
  have found: "truthy (extract_folio folio_response)"
    and folio: "extract_folio folio_response = JStr ''123''"
    by (simp_all add: extract_folio_def folio_response_def dict_get_def py_or_def)
  have mail: "email_destinatario example_doc = Some ''correo@dominio.cl''"
    by (simp add: example_doc_def)
  have anio: "resolve_anio ?E example_doc folio_response \<noteq> 0"
    by (simp add: example_anio)
  have answer: "post ?E w req =
      Post_Returns \<lparr>status_code = 500, resp_text = ''Internal Server Error'',
                     json_body = Inl ''Expecting value: line 1 column 1 (char 0)''\<rparr>" for w req
    by (simp add: example_env_def text_returns_def returns_def)
  from mail_failure_keeps_issuance [OF found example_config mail _ anio, of 2] answer
  show ?thesis
    by (simp add: Let_def folio str_int_def str_nat_500)
qed

section \<open>Voiding: the claims\<close>

lemma anular_one_returned:
  assumes "state d = Emitted \<or> state d = Downloaded"
    and "get_simpleapi_config E = Inr cfg"
    and "post E w (anular_request cfg d) = Post_Returns resp"
  shows "anular_one E w d =
           (Suc w,
            if status_code resp = 200 \<and> legacy_ok resp then
              Inr (message_post (d\<lparr>state := Cancelled\<rparr>)
                     (''Boleta '' @ field_str (numero_boleta d)
                        @ '' anulada exitosamente (legacy). Resp: '' @ take 300 (resp_text resp))
                     Notification)
            else Inl (UserError (''Error anulando boleta: Error anulando boleta: ''
                                   @ take 300 (resp_text resp))))"
  using assms by (auto simp: anular_one_def anular_try_def Let_def)

lemma action_anular_boleta_single:
  "action_anular_boleta E w [d] =
     (case anular_one E w d of
        (w', Inl e) \<Rightarrow> (w', [d], Some e)
      | (w', Inr d') \<Rightarrow> (w', [d'], None))"
  by (simp split: prod.splits sum.splits)

text \<open>
  C5. The legacy void of a document in state \<open>Emitted\<close> or \<open>Downloaded\<close>, answered
  with HTTP 200 and a JSON object. Without a truthy \<^verbatim>\<open>error\<close> field the document becomes
  \<open>Cancelled\<close> (and a notification is posted); with one, a \<^verbatim>\<open>UserError\<close> reaches the
  caller and the document is as it was, in every field.
\<close>

theorem legacy_void_json_object:
  assumes "state d = Emitted \<or> state d = Downloaded"
    and "get_simpleapi_config E = Inr cfg"
    and "post E w (anular_request cfg d) = Post_Returns resp"
    and "status_code resp = 200"
    and "json_body resp = Inr (JObj kv)"
  shows "(\<not> truthy (dict_get kv ''error'') \<longrightarrow>
            (\<exists>d'. action_anular_boleta E w [d] = (Suc w, [d'], None) \<and> state d' = Cancelled
                  \<and> d' = message_post (d\<lparr>state := Cancelled\<rparr>)
                           (''Boleta '' @ field_str (numero_boleta d)
                              @ '' anulada exitosamente (legacy). Resp: ''
                              @ take 300 (resp_text resp)) Notification))
         \<and> (truthy (dict_get kv ''error'') \<longrightarrow>
            action_anular_boleta E w [d] =
              (Suc w, [d], Some (UserError (''Error anulando boleta: Error anulando boleta: ''
                                              @ take 300 (resp_text resp)))))"
  using assms(4,5)
  by (simp add: action_anular_boleta_single anular_one_returned [OF assms(1-3)] legacy_ok_def)

text \<open>
  C10. In the legacy void at HTTP 200 the keywords decide only when \<^verbatim>\<open>resp.json()\<close>
  raises. A body that parses to anything but an object (an array, a string, a number,
  \<^verbatim>\<open>null\<close>) makes the operation raise a \<^verbatim>\<open>UserError\<close> and leaves the document as it was,
  whatever its text holds.
\<close>

theorem legacy_void_keywords_only_without_json:
  assumes "state d = Emitted \<or> state d = Downloaded"
    and "get_simpleapi_config E = Inr cfg"
    and "post E w (anular_request cfg d) = Post_Returns resp"
    and "status_code resp = 200"
  shows "(\<forall>j. json_body resp = Inr j \<and> (\<forall>kv. j \<noteq> JObj kv) \<longrightarrow>
            action_anular_boleta E w [d] =
              (Suc w, [d], Some (UserError (''Error anulando boleta: Error anulando boleta: ''
                                              @ take 300 (resp_text resp)))))
         \<and> (\<forall>m. json_body resp = Inl m \<longrightarrow>
              ((\<exists>d'. action_anular_boleta E w [d] = (Suc w, [d'], None) \<and> state d' = Cancelled)
               \<longleftrightarrow> (contains (lower (resp_text resp)) ''anulada''
                    \<or> contains (lower (resp_text resp)) ''correctamente'')))"
proof (intro conjI allI impI)
  fix j assume "json_body resp = Inr j \<and> (\<forall>kv. j \<noteq> JObj kv)"
  then have "\<not> legacy_ok resp"
    by (cases j) (auto simp: legacy_ok_def)
  then show "action_anular_boleta E w [d] =
      (Suc w, [d], Some (UserError (''Error anulando boleta: Error anulando boleta: ''
                                      @ take 300 (resp_text resp))))"
    by (simp add: action_anular_boleta_single anular_one_returned [OF assms(1-3)])
next
  fix m assume "json_body resp = Inl m"
  then have "legacy_ok resp \<longleftrightarrow> (contains (lower (resp_text resp)) ''anulada''
                                 \<or> contains (lower (resp_text resp)) ''correctamente'')"
    by (simp add: legacy_ok_def Let_def)
  then show "(\<exists>d'. action_anular_boleta E w [d] = (Suc w, [d'], None) \<and> state d' = Cancelled)
      \<longleftrightarrow> (contains (lower (resp_text resp)) ''anulada''
           \<or> contains (lower (resp_text resp)) ''correctamente'')"
    using assms(4)
    by (simp add: action_anular_boleta_single anular_one_returned [OF assms(1-3)])
qed

lemma anular_path_one_checked:
  assumes "state d = Emitted \<or> state d = Downloaded"
    and "field_truthy (numero_boleta d)"
    and "motivo_anulacion d = Some ''1'' \<or> motivo_anulacion d = Some ''2''
         \<or> motivo_anulacion d = Some ''3''"
  shows "anular_path_one E w d =
           (case anular_path_try E w d of
              (w', Inl (UserError m)) \<Rightarrow> (w', Inl (UserError m))
            | (w', Inl e) \<Rightarrow>
                (w', Inl (UserError (''Error inesperado anulando boleta: '' @ str_exn E e)))
            | (w', Inr d') \<Rightarrow> (w', Inr d'))"
  using assms by (auto simp: anular_path_one_def)

lemma anular_path_try_returned:
  assumes "get_simpleapi_config E = Inr cfg"
    and "post E w (anular_path_request cfg d) = Post_Returns resp"
  shows "anular_path_try E w d =
     (let folio = strip (field_str (numero_boleta d));
          motivo = field_str (motivo_anulacion d)
      in if status_code resp = 200 \<or> status_code resp = 202 then
           (case json_body resp of
              Inr (JObj kv) \<Rightarrow>
                if success_flag E kv \<and> \<not> truthy (dict_get kv ''error'') then
                  (Suc w, Inr (message_post (d\<lparr>state := Cancelled\<rparr>)
                     (''Boleta '' @ folio @ '' anulada exitosamente (motivo '' @ motivo
                        @ ''). Resp: '' @ repr E (JObj kv))
                     Notification))
                else
                  (Suc w, Inl (UserError (''Error anulando boleta: ''
                     @ py_str E (py_or (dict_get kv ''error'') (JObj kv)))))
            | other \<Rightarrow>
                (let txt = strip (resp_text resp) in
                 if txt \<noteq> [] \<and> (contains (lower txt) ''anulada''
                                \<or> contains (lower txt) ''correctamente'') then
                   (Suc w, Inr (message_post (d\<lparr>state := Cancelled\<rparr>)
                      (''Boleta '' @ folio @ '' anulada exitosamente (motivo '' @ motivo
                         @ ''). Resp: '' @ txt)
                      Notification))
                 else
                   (Suc w, Inr (message_post (d\<lparr>state := Cancelled\<rparr>)
                      (''Boleta '' @ folio @ '' anulada (HTTP ''
                         @ str_int (status_code resp) @ '') sin JSON; cuerpo: ''
                         @ take 300 txt)
                      Notification))))
         else
           (Suc w, Inl (UserError (''Error anulando boleta: ''
              @ str_int (status_code resp) @ '' - '' @ take 300 (resp_text resp)))))"
  using assms by (simp add: anular_path_try_def Let_def)

text \<open>
  C3, as amended. The path-style void interprets the body only at HTTP 200 or 202; on
  any other status it raises a \<^verbatim>\<open>UserError\<close> that carries the status code and the first
  300 characters of the body, and at 202 a JSON object with no truthy \<^verbatim>\<open>error\<close> and a
  \<^verbatim>\<open>success\<close> that is absent or true is accepted. The legacy void interprets the body only
  at HTTP 200; on any other status, 202 included, it raises a \<^verbatim>\<open>UserError\<close> that carries
  the first 300 characters of the body and no status code. In both, the document is as it
  was.
\<close>

theorem void_rejects_other_statuses:
  assumes "state d = Emitted \<or> state d = Downloaded"
    and "get_simpleapi_config E = Inr cfg"
  shows "(\<forall>resp. post E w (anular_request cfg d) = Post_Returns resp \<and> status_code resp \<noteq> 200
            \<longrightarrow> action_anular_boleta E w [d] =
                  (Suc w, [d], Some (UserError (''Error anulando boleta: Error anulando boleta: ''
                                                  @ take 300 (resp_text resp)))))
         \<and> (field_truthy (numero_boleta d)
              \<and> (motivo_anulacion d = Some ''1'' \<or> motivo_anulacion d = Some ''2''
                   \<or> motivo_anulacion d = Some ''3'') \<longrightarrow>
            (\<forall>resp. post E w (anular_path_request cfg d) = Post_Returns resp
                \<and> status_code resp \<noteq> 200 \<and> status_code resp \<noteq> 202
              \<longrightarrow> action_anular_boleta_path E w [d] =
                    (Suc w, [d], Some (UserError (''Error anulando boleta: ''
                       @ str_int (status_code resp) @ '' - '' @ take 300 (resp_text resp)))))
            \<and> (\<forall>resp kv. post E w (anular_path_request cfg d) = Post_Returns resp
                \<and> status_code resp = 202 \<and> json_body resp = Inr (JObj kv)
                \<and> success_flag E kv \<and> \<not> truthy (dict_get kv ''error'')
              \<longrightarrow> (\<exists>d'. action_anular_boleta_path E w [d] = (Suc w, [d'], None)
                         \<and> state d' = Cancelled)))"
proof (intro conjI allI impI)
  fix resp
  assume "post E w (anular_request cfg d) = Post_Returns resp \<and> status_code resp \<noteq> 200"
  then show "action_anular_boleta E w [d] =
      (Suc w, [d], Some (UserError (''Error anulando boleta: Error anulando boleta: ''
                                      @ take 300 (resp_text resp))))"
    using anular_one_returned [OF assms(1,2), of w resp]
    by (simp add: action_anular_boleta_single)
next
  fix resp
  assume pre: "field_truthy (numero_boleta d)
      \<and> (motivo_anulacion d = Some ''1'' \<or> motivo_anulacion d = Some ''2''
           \<or> motivo_anulacion d = Some ''3'')"
    and "post E w (anular_path_request cfg d) = Post_Returns resp
      \<and> status_code resp \<noteq> 200 \<and> status_code resp \<noteq> 202"
  then show "action_anular_boleta_path E w [d] =
      (Suc w, [d], Some (UserError (''Error anulando boleta: ''
         @ str_int (status_code resp) @ '' - '' @ take 300 (resp_text resp))))"
    using anular_path_one_checked [OF assms(1), of E w] anular_path_try_returned [OF assms(2), of w d resp]
    by simp
next
  fix resp kv
  assume pre: "field_truthy (numero_boleta d)
      \<and> (motivo_anulacion d = Some ''1'' \<or> motivo_anulacion d = Some ''2''
           \<or> motivo_anulacion d = Some ''3'')"
    and "post E w (anular_path_request cfg d) = Post_Returns resp
      \<and> status_code resp = 202 \<and> json_body resp = Inr (JObj kv)
      \<and> success_flag E kv \<and> \<not> truthy (dict_get kv ''error'')"
  then show "\<exists>d'. action_anular_boleta_path E w [d] = (Suc w, [d'], None) \<and> state d' = Cancelled"
    using anular_path_one_checked [OF assms(1), of E w] anular_path_try_returned [OF assms(2), of w d resp]
    by (simp add: Let_def)
qed

lemma contains_sublist: "contains s sub \<longleftrightarrow> sublist sub s"
proof (induction s)
  case Nil
  show ?case by auto
next
  case (Cons c cs)
  have "take (length sub) (c # cs) = sub \<longleftrightarrow> prefix sub (c # cs)"
    by (metis append_eq_conv_conj prefix_def take_is_prefix)
  with Cons show ?case
    by (simp add: sublist_Cons_right)
qed

lemma strip_sublist: "sublist (strip t) t"
  by (metis sublist_dropWhile sublist_order.order.trans sublist_rev_left strip_def)

lemma contains_lower_strip:
  assumes "contains (lower (strip t)) k"
  shows "contains (lower t) k"
proof -
  obtain a b where "t = a @ strip t @ b"
    using strip_sublist [of t] by (auto simp: sublist_def)
  then have "lower t = lower a @ lower (strip t) @ lower b"
    by (metis lower_def map_append)
  then have "sublist (lower (strip t)) (lower t)"
    by (auto simp: sublist_def)
  with assms show ?thesis
    by (metis contains_sublist sublist_order.order.trans)
qed

lemma action_anular_boleta_path_single:
  "action_anular_boleta_path E w [d] =
     (case anular_path_one E w d of
        (w', Inl e) \<Rightarrow> (w', [d], Some e)
      | (w', Inr d') \<Rightarrow> (w', [d'], None))"
  by (simp split: prod.splits sum.splits)

text \<open>
  C6. The path-style void answered with HTTP 200 or 202 and a body on which
  \<^verbatim>\<open>resp.json()\<close> raises and in which neither keyword occurs, in any case of letters: the
  document becomes \<open>Cancelled\<close>, and the notification posted ends with the body, stripped
  of surrounding white space and cut to its first 300 characters.
\<close>

theorem path_void_unrecognised_body_cancels:
  assumes "state d = Emitted \<or> state d = Downloaded"
    and "field_truthy (numero_boleta d)"
    and "motivo_anulacion d = Some ''1'' \<or> motivo_anulacion d = Some ''2''
         \<or> motivo_anulacion d = Some ''3''"
    and "get_simpleapi_config E = Inr cfg"
    and "post E w (anular_path_request cfg d) = Post_Returns resp"
    and "status_code resp = 200 \<or> status_code resp = 202"
    and "json_body resp = Inl m"
    and "\<not> contains (lower (resp_text resp)) ''anulada''"
    and "\<not> contains (lower (resp_text resp)) ''correctamente''"
  shows "action_anular_boleta_path E w [d] =
           (Suc w,
            [message_post (d\<lparr>state := Cancelled\<rparr>)
               (''Boleta '' @ strip (field_str (numero_boleta d)) @ '' anulada (HTTP ''
                  @ str_int (status_code resp) @ '') sin JSON; cuerpo: ''
                  @ take 300 (strip (resp_text resp)))
               Notification],
            None)"
proof -
  have "\<not> contains (lower (strip (resp_text resp))) ''anulada''"
    and "\<not> contains (lower (strip (resp_text resp))) ''correctamente''"
    using assms(8,9) contains_lower_strip by blast+
  then show ?thesis
    using assms(6,7) anular_path_one_checked [OF assms(1-3), of E w]
      anular_path_try_returned [OF assms(4,5)]
    by (auto simp: action_anular_boleta_path_single Let_def)
qed

section \<open>Voiding: examples\<close>

lemma emitted_doc_checked:
  "state emitted_doc = Emitted \<or> state emitted_doc = Downloaded"
  "field_truthy (numero_boleta emitted_doc)"
  "motivo_anulacion emitted_doc = Some ''1'' \<or> motivo_anulacion emitted_doc = Some ''2''
     \<or> motivo_anulacion emitted_doc = Some ''3''"
  by (simp_all add: emitted_doc_def example_doc_def field_truthy_def)

lemma example_post: "post (example_env r) w req = r"
  by (simp add: example_env_def)

lemma json_returns_simps [simp]:
  "json_returns st j = Post_Returns \<lparr>status_code = st, resp_text = example_dumps j, json_body = Inr j\<rparr>"
  by (simp add: json_returns_def returns_def)

lemma text_returns_simps [simp]:
  "text_returns st body = Post_Returns \<lparr>status_code = st, resp_text = body,
      json_body = Inl ''Expecting value: line 1 column 1 (char 0)''\<rparr>"
  by (simp add: text_returns_def returns_def)

lemma null_error_text: "length (example_dumps (JObj null_error_response)) \<le> 300"
  by code_simp

lemma x_error_text: "length (example_dumps (JObj x_error_response)) \<le> 300"
  by code_simp

lemma keyword_list_text:
  "length (example_dumps keyword_list_response) \<le> 300"
  "contains (lower (example_dumps keyword_list_response)) ''anulada''"
  by code_simp+

lemma lower_true: "lower ''true'' = ''true''"
  by code_simp

lemma strip_ok: "strip ''OK'' = ''OK''" "strip ''123'' = ''123''"
  by code_simp+

lemma ok_no_keywords:
  "\<not> contains (lower ''OK'') ''anulada''" "\<not> contains (lower ''OK'') ''correctamente''"
  by code_simp+

lemma str_nat_200: "str_nat 200 = ''200''"
  by code_simp

text \<open>
  C3, counterexample to the claim as worded: the body \<^verbatim>\<open>{"error": null}\<close> with HTTP 202.
  The legacy void raises (its message holds the body and no status code) and leaves the
  document as it was, although it accepts the same body at 200 and the path-style void
  accepts it at 202.
\<close>

theorem legacy_void_refuses_202:
  "action_anular_boleta (example_env (json_returns 202 (JObj null_error_response))) 0 [emitted_doc]
     = (1, [emitted_doc],
        Some (UserError (''Error anulando boleta: Error anulando boleta: ''
                           @ example_dumps (JObj null_error_response))))
   \<and> (\<exists>d'. action_anular_boleta (example_env (json_returns 200 (JObj null_error_response))) 0
               [emitted_doc] = (1, [d'], None) \<and> state d' = Cancelled)
   \<and> (\<exists>d'. action_anular_boleta_path (example_env (json_returns 202 (JObj null_error_response))) 0
               [emitted_doc] = (1, [d'], None) \<and> state d' = Cancelled)"
proof -
  have legacy: "anular_one (example_env (json_returns st (JObj null_error_response))) 0 emitted_doc =
      (Suc 0,
       if st = 200 then
         Inr (message_post (emitted_doc\<lparr>state := Cancelled\<rparr>)
                (''Boleta '' @ field_str (numero_boleta emitted_doc)
                   @ '' anulada exitosamente (legacy). Resp: ''
                   @ example_dumps (JObj null_error_response)) Notification)
       else Inl (UserError (''Error anulando boleta: Error anulando boleta: ''
                              @ example_dumps (JObj null_error_response))))" for st
    using anular_one_returned [OF emitted_doc_checked(1) example_config example_post
             [of "json_returns st (JObj null_error_response)", unfolded json_returns_simps]]
      null_error_text
    by (simp add: legacy_ok_def null_error_response_def dict_get_def)
  have flag: "success_flag E null_error_response" for E
    by (simp add: success_flag_def null_error_response_def lower_true)
  have path: "\<exists>d'. anular_path_one (example_env (json_returns 202 (JObj null_error_response))) 0
                     emitted_doc = (Suc 0, Inr d') \<and> state d' = Cancelled"
    using anular_path_one_checked [OF emitted_doc_checked]
      anular_path_try_returned [OF example_config example_post
             [of "json_returns 202 (JObj null_error_response)", unfolded json_returns_simps]]
      flag
    by (simp add: Let_def) (simp add: null_error_response_def dict_get_def)
  show ?thesis
    using legacy [of 202] legacy [of 200] path
    by (auto simp: action_anular_boleta_single action_anular_boleta_path_single)
qed

text \<open>C3, witness: both variants answered with status 500.\<close>

theorem void_status_500_example:
  "action_anular_boleta (example_env (text_returns 500 ''Internal Server Error'')) 0 [emitted_doc]
     = (1, [emitted_doc],
        Some (UserError ''Error anulando boleta: Error anulando boleta: Internal Server Error''))
   \<and> action_anular_boleta_path (example_env (text_returns 500 ''Internal Server Error'')) 0
        [emitted_doc]
     = (1, [emitted_doc],
        Some (UserError ''Error anulando boleta: 500 - Internal Server Error''))"
  using void_rejects_other_statuses [OF emitted_doc_checked(1) example_config,
          of "text_returns 500 ''Internal Server Error''" 0]
    emitted_doc_checked(2,3)
  by (simp add: example_post str_int_def str_nat_500)

text \<open>
  C5, witness: \<^verbatim>\<open>{"error": null}\<close> at HTTP 200 cancels the document; \<^verbatim>\<open>{"error": "x"}\<close> at
  HTTP 200 raises and returns it unchanged.
\<close>

theorem legacy_void_error_field_example:
  "(\<exists>d'. action_anular_boleta (example_env (json_returns 200 (JObj null_error_response))) 0
             [emitted_doc] = (1, [d'], None) \<and> state d' = Cancelled)
   \<and> action_anular_boleta (example_env (json_returns 200 (JObj x_error_response))) 0 [emitted_doc]
     = (1, [emitted_doc],
        Some (UserError (''Error anulando boleta: Error anulando boleta: ''
                           @ example_dumps (JObj x_error_response))))"
proof -
  have null: "\<not> truthy (dict_get null_error_response ''error'')"
    by (simp add: null_error_response_def dict_get_def)
  have x: "truthy (dict_get x_error_response ''error'')"
    by (simp add: x_error_response_def dict_get_def)
  from legacy_void_json_object [OF emitted_doc_checked(1) example_config example_post
         [of "json_returns 200 (JObj null_error_response)", unfolded json_returns_simps]] null
  have first: "\<exists>d'. action_anular_boleta (example_env (json_returns 200 (JObj null_error_response))) 0
             [emitted_doc] = (1, [d'], None) \<and> state d' = Cancelled"
    by simp
  from legacy_void_json_object [OF emitted_doc_checked(1) example_config example_post
         [of "json_returns 200 (JObj x_error_response)", unfolded json_returns_simps]] x x_error_text
  have second: "action_anular_boleta (example_env (json_returns 200 (JObj x_error_response))) 0
      [emitted_doc]
     = (1, [emitted_doc],
        Some (UserError (''Error anulando boleta: Error anulando boleta: ''
                           @ example_dumps (JObj x_error_response))))"
    by simp
  show ?thesis using first second by blast
qed

text \<open>C6, witness: the plain-text body \<^verbatim>\<open>OK\<close> at HTTP 200.\<close>

theorem path_void_plain_ok_example:
  "action_anular_boleta_path (example_env (text_returns 200 ''OK'')) 0 [emitted_doc]
     = (1, [message_post (emitted_doc\<lparr>state := Cancelled\<rparr>)
              ''Boleta 123 anulada (HTTP 200) sin JSON; cuerpo: OK'' Notification], None)"
  using path_void_unrecognised_body_cancels [OF emitted_doc_checked example_config example_post
          [of "text_returns 200 ''OK''", unfolded text_returns_simps]]
    ok_no_keywords
  by (simp add: strip_ok str_int_def str_nat_200)
     (simp add: emitted_doc_def field_str_def strip_ok)

text \<open>
  C10, witness: the body \<^verbatim>\<open>["Boleta anulada correctamente"]\<close> at HTTP 200 is JSON, an
  array, and holds a keyword; the legacy void raises.
\<close>

theorem legacy_void_json_array_example:
  "contains (lower (example_dumps keyword_list_response)) ''anulada''
   \<and> action_anular_boleta (example_env (json_returns 200 keyword_list_response)) 0 [emitted_doc]
     = (1, [emitted_doc],
        Some (UserError (''Error anulando boleta: Error anulando boleta: ''
                           @ example_dumps keyword_list_response)))"
  using legacy_void_keywords_only_without_json [OF emitted_doc_checked(1) example_config example_post
          [of "json_returns 200 keyword_list_response", unfolded json_returns_simps]]
    keyword_list_text
  by (simp add: keyword_list_response_def)

section \<open>The RUT validator: the claim\<close>

lemma py_int_decimal:
  assumes "is_decimal d"
  shows "py_int [d] = Some (int (digit_value d))"
proof -
  have bounds: "48 \<le> ord d" "ord d \<le> 57"
    using assms by (simp_all add: is_decimal_def)
  have "\<not> isspace d"
    using bounds by (simp add: isspace_def)
  then have strip: "strip [d] = [d]"
    by (simp add: strip_def)
  have "ord d \<noteq> 45" "ord d \<noteq> 43"
    using bounds by simp_all
  then have sign: "d \<noteq> CHR ''-''" "d \<noteq> CHR ''+''"
    by (auto simp: ord_def)
  show ?thesis
    using assms sign by (simp add: py_int_def strip Let_def digits_value_def digit_value_def)
qed

lemma rut_loop_decimal:
  assumes "list_all is_decimal ds"
  shows "rut_loop ds suma (2 + i mod 6) = Inr (suma + weighted_sum (map digit_value ds) i)"
  using assms
proof (induction ds arbitrary: suma i)
  case Nil
  show ?case by simp
next
  case (Cons d ds)
  have "i mod 6 < 6" by simp
  then have next_mult: "(if 2 + i mod 6 < 7 then 2 + i mod 6 + 1 else 2) = 2 + Suc i mod 6"
    by (auto simp: mod_Suc)
  from Cons.prems have d: "is_decimal d" and ds: "list_all is_decimal ds"
    by simp_all
  have step: "rut_loop (d # ds) suma (2 + i mod 6) =
      rut_loop ds (suma + digit_value d * (2 + i mod 6)) (2 + Suc i mod 6)"
    by (simp only: rut_loop.simps py_int_decimal [OF d] option.simps nat_int next_mult)
  show ?case
    by (simp only: step Cons.IH [OF ds] list.map weighted_sum.simps add.assoc)
qed

lemma str_nat_digit: "n < 10 \<Longrightarrow> str_nat n = [char_of (48 + n)]"
  by (simp add: str_nat.simps)

lemma decimal_isdigit:
  assumes "list_all is_decimal s" and "s \<noteq> []"
  shows "isdigit s"
proof -
  have "list_all isdigit_char s"
    using assms(1) by (induction s) (simp_all add: isdigit_char_def)
  with assms(2) show ?thesis by (simp add: isdigit_def)
qed

text \<open>
  On a body of decimal digits the validator is the specification's: it returns false
  when the string, stripped of separators and in upper case, is shorter than 8 or its
  body is not numeric, and otherwise compares the last character with the check digit.
\<close>

lemma validate_rut_decimal:
  "(length (upper (strip_separators rut0)) < 8
      \<or> \<not> isdigit (butlast (upper (strip_separators rut0)))
    \<longrightarrow> validate_rut rut0 = Inr False)
   \<and> (8 \<le> length (upper (strip_separators rut0))
      \<and> list_all is_decimal (butlast (upper (strip_separators rut0)))
    \<longrightarrow> validate_rut rut0 =
          Inr (last (upper (strip_separators rut0))
                 = check_digit (butlast (upper (strip_separators rut0)))))"
proof (intro conjI impI)
  let ?rut = "upper (strip_separators rut0)"
  assume "length ?rut < 8 \<or> \<not> isdigit (butlast ?rut)"
  then show "validate_rut rut0 = Inr False"
    by (auto simp: validate_rut_def Let_def)
next
  let ?rut = "upper (strip_separators rut0)"
  let ?numero = "butlast ?rut"
  assume a: "8 \<le> length ?rut \<and> list_all is_decimal ?numero"
  have "rut0 \<noteq> []"
    using a by (auto simp: upper_def strip_separators_def remove_char_def)
  moreover have "0 < length ?numero"
    using a by simp
  then have "?numero \<noteq> []"
    by (metis length_greater_0_conv)
  ultimately have nonempty: "rut0 \<noteq> []" "?numero \<noteq> []"
    by blast+
  have digits: "isdigit ?numero"
    using a nonempty by (simp add: decimal_isdigit)
  have loop: "rut_loop (rev ?numero) 0 2 = Inr (weighted_sum (map digit_value (rev ?numero)) 0)"
    using rut_loop_decimal [of "rev ?numero" 0 0] a by simp
  define r where "r = weighted_sum (map digit_value (rev ?numero)) 0 mod 11"
  have r: "r < 11" by (simp add: r_def)
  have calc: "(if r = 0 then ''0'' else if r = 1 then ''K'' else str_nat (11 - r)) =
      [if r = 0 then CHR ''0'' else if r = 1 then CHR ''K'' else char_of (48 + (11 - r))]"
    using r by (simp add: str_nat_digit)
  show "validate_rut rut0 = Inr (last ?rut = check_digit ?numero)"
    using a nonempty(1) digits
    by (simp add: validate_rut_def Let_def loop check_digit_def calc [unfolded r_def] rev_map)
qed

lemma superscript_rut_upper: "upper (strip_separators superscript_rut) = superscript_rut"
  by code_simp

lemma superscript_rut_body: "isdigit (butlast superscript_rut)"
  by code_simp

lemma superscript_rut_loop:
  "rut_loop (rev (butlast superscript_rut)) 0 2 = Inl (ValueError [CHR 0xB2])"
  by code_simp

text \<open>
  C9, the failing input. The string 1234567 followed by U+00B2 and 5 has nine
  characters and a body that \<^verbatim>\<open>str.isdigit\<close> accepts; \<^verbatim>\<open>int\<close> raises \<^verbatim>\<open>ValueError\<close> on
  the superscript, and so does the validator, which returns neither true nor false.
\<close>

theorem validate_rut_raises_on_superscript:
  "length (upper (strip_separators superscript_rut)) = 9
   \<and> isdigit (butlast (upper (strip_separators superscript_rut)))
   \<and> validate_rut superscript_rut = Inl (ValueError [CHR 0xB2])"
proof -
  have "superscript_rut \<noteq> []" "length superscript_rut = 9"
    by (simp_all add: superscript_rut_def)
  then show ?thesis
    by (simp add: validate_rut_def Let_def superscript_rut_upper superscript_rut_body
          superscript_rut_loop)
qed

end
